theory Spec2Isabelle
  imports Main
begin

section \<open>Job-application tracker: the client script \<^verbatim>\<open>static/script.js\<close>\<close>

text \<open>
  The script is a browser front end: four module-level variables, handlers that read and
  write the page, and calls to a REST API. The embedding keeps the variables and the parts
  of the page the handlers touch in one record, passes it through every function, and
  records each externally visible action (a request sent, an alert, a navigation, a
  download) in a log, in the order in which the script performs them. What the browser and
  the server answer is an argument of each function.

  Strings are lists of \<^typ>\<open>char\<close>; a character outside ASCII is carried as its UTF-8 bytes.
\<close>

subsection \<open>Values\<close>

text \<open>
  A property of a record that holds text: the property may be missing from the object
  (\<^verbatim>\<open>undefined\<close>), \<^verbatim>\<open>null\<close>, or a string.
\<close>

datatype jsstr = Undefined | Null | Str string

text \<open>A job application as the server sends it; \<open>job_id\<close> and \<open>job_notes\<close> are the properties
  \<^verbatim>\<open>id\<close> and \<^verbatim>\<open>notes\<close>.\<close>

record job =
  job_id :: int
  company :: jsstr
  position :: jsstr
  status :: jsstr
  applied_date :: jsstr
  job_url :: jsstr
  salary :: jsstr
  job_notes :: jsstr

text \<open>
  What \<^verbatim>\<open>response.json()\<close> can yield. \<open>JJobs\<close> is an array of job objects; numbers are
  integers.
\<close>

datatype json =
    JNull
  | JBool bool
  | JNum int
  | JStr string
  | JJobs "job list"
  | JObj "(string \<times> json) list"

text \<open>
  What a \<^verbatim>\<open>throw\<close> carries. \<open>Error v\<close> is \<^verbatim>\<open>new Error(v)\<close>: its message is \<open>v\<close> converted to a
  string. \<open>NetworkError\<close> is the rejection of \<^verbatim>\<open>fetch\<close> itself.
\<close>

datatype js_error = Error json | SyntaxError | TypeError | NetworkError

text \<open>JavaScript truthiness.\<close>

fun truthy :: "json \<Rightarrow> bool" where
  "truthy JNull = False"
| "truthy (JBool b) = b"
| "truthy (JNum n) = (n \<noteq> 0)"
| "truthy (JStr s) = (s \<noteq> [])"
| "truthy (JJobs js) = True"
| "truthy (JObj kvs) = True"

fun truthy_str :: "jsstr \<Rightarrow> bool" where
  "truthy_str Undefined = False"
| "truthy_str Null = False"
| "truthy_str (Str s) = (s \<noteq> [])"

text \<open>\<^verbatim>\<open>v || d\<close> on a text property, and on the value of an input element.\<close>

definition or_else :: "jsstr \<Rightarrow> string \<Rightarrow> string" where
  "or_else v d = (case v of Str s \<Rightarrow> (if s = [] then d else s) | _ \<Rightarrow> d)"

text \<open>
  How a template literal prints a text property and a number. A number is an integer the
  server sent. Up to the largest safe integer it is printed as its decimal digits; beyond,
  the digits and the exponent form are the engine's (\<open>big\<close> is \<^verbatim>\<open>Number.prototype.toString\<close>).
\<close>

fun to_string :: "jsstr \<Rightarrow> string" where
  "to_string Undefined = ''undefined''"
| "to_string Null = ''null''"
| "to_string (Str s) = s"

definition digit_char :: "nat \<Rightarrow> char" where
  "digit_char d = ''0123456789'' ! d"

fun decimal :: "nat \<Rightarrow> string" where
  "decimal n =
     (if 10 \<le> n then decimal (n div 10) @ [digit_char (n mod 10)] else [digit_char n])"

declare decimal.simps [simp del]

definition number_to_string :: "(int \<Rightarrow> string) \<Rightarrow> int \<Rightarrow> string" where
  "number_to_string big i =
     (if 9007199254740992 \<le> \<bar>i\<bar> then big i
      else if 0 \<le> i then decimal (nat i)
      else CHR ''-'' # decimal (nat (- i)))"

fun id_string :: "(int \<Rightarrow> string) \<Rightarrow> int option \<Rightarrow> string" where
  "id_string big None = ''null''"
| "id_string big (Some n) = number_to_string big n"

text \<open>
  Reading the property \<open>k\<close> of a parsed body (\<open>k\<close> not a built-in property of strings and
  arrays): a \<^verbatim>\<open>TypeError\<close> on \<^verbatim>\<open>null\<close>, the last entry for \<open>k\<close> of an object, and
  \<^verbatim>\<open>undefined\<close> (\<open>None\<close>) otherwise.
\<close>

fun get_prop :: "json \<Rightarrow> string \<Rightarrow> js_error + json option" where
  "get_prop JNull k = Inl TypeError"
| "get_prop (JObj kvs) k = Inr (map_of (rev kvs) k)"
| "get_prop v k = Inr None"

subsection \<open>Utility functions\<close>

text \<open>\<^verbatim>\<open>s.replace(/c/g, r)\<close> for a single character \<open>c\<close>.\<close>

definition replaceAll :: "char \<Rightarrow> string \<Rightarrow> string \<Rightarrow> string" where
  "replaceAll c r s = concat (map (\<lambda>x. if x = c then r else [x]) s)"

definition escapeHtml :: "jsstr \<Rightarrow> string" where
  \<open>escapeHtml unsafe =
     (if \<not> truthy_str unsafe then ''''
      else replaceAll (CHR 0x27) ''&#039;''
            (replaceAll (CHR 0x22) ''&quot;''
              (replaceAll (CHR ''>'') ''&gt;''
                (replaceAll (CHR ''<'') ''&lt;''
                  (replaceAll (CHR ''&'') ''&amp;'' (to_string unsafe))))))\<close>

text \<open>
  The engine's case mapping and date formatting are the browser's: \<open>upper\<close> is
  \<^verbatim>\<open>toUpperCase\<close> and \<open>fmt\<close> is \<^verbatim>\<open>new Date(s).toLocaleDateString('en-US', ...)\<close>, with \<open>None\<close>
  when it throws.

  \<^verbatim>\<open>str.charAt(0)\<close> is the first UTF-16 unit of the string. \<open>first_unit s\<close> is the number of
  bytes that unit takes in \<open>s\<close> when it is a character of its own (one, two or three
  bytes), and 0 when the string starts with a character outside the basic plane: the
  unit is then half of a surrogate pair, which \<^verbatim>\<open>toUpperCase\<close> leaves as it is, and
  \<^verbatim>\<open>str.slice(1)\<close> puts the other half back behind it.
\<close>

definition first_unit :: "string \<Rightarrow> nat" where
  "first_unit s =
     (case s of
        [] \<Rightarrow> 0
      | c # cs \<Rightarrow>
          if (of_char c :: nat) < 0x80 then 1
          else if 0xC0 \<le> (of_char c :: nat) \<and> (of_char c :: nat) < 0xE0 then 2
          else if 0xE0 \<le> (of_char c :: nat) \<and> (of_char c :: nat) < 0xF0 then 3
          else 0)"

definition capitalizeFirst :: "(string \<Rightarrow> string) \<Rightarrow> jsstr \<Rightarrow> string" where
  "capitalizeFirst upper str =
     (case str of
        Str (c # cs) \<Rightarrow>
          (if first_unit (c # cs) = 0 then c # cs
           else upper (take (first_unit (c # cs)) (c # cs)) @ drop (first_unit (c # cs)) (c # cs))
      | _ \<Rightarrow> '''')"

definition formatDate :: "(string \<Rightarrow> string option) \<Rightarrow> jsstr \<Rightarrow> string" where
  "formatDate fmt dateString =
     (case dateString of
        Str (c # cs) \<Rightarrow> (case fmt (c # cs) of Some d \<Rightarrow> d | None \<Rightarrow> c # cs)
      | _ \<Rightarrow> '''')"

text \<open>
  \<^verbatim>\<open>String.prototype.trim\<close>: white space and line terminators are removed from both ends.
  \<open>white_space\<close> lists them in UTF-8: TAB, LF, VT, FF, CR, SP, U+00A0, U+1680,
  U+2000 to U+200A, U+2028, U+2029, U+202F, U+205F, U+3000 and U+FEFF.
\<close>

definition white_space :: "string list" where
  "white_space =
     [[CHR 0x09], [CHR 0x0A], [CHR 0x0B], [CHR 0x0C], [CHR 0x0D], [CHR 0x20],
      [CHR 0xC2, CHR 0xA0], [CHR 0xE1, CHR 0x9A, CHR 0x80],
      [CHR 0xE2, CHR 0x80, CHR 0x80], [CHR 0xE2, CHR 0x80, CHR 0x81],
      [CHR 0xE2, CHR 0x80, CHR 0x82], [CHR 0xE2, CHR 0x80, CHR 0x83],
      [CHR 0xE2, CHR 0x80, CHR 0x84], [CHR 0xE2, CHR 0x80, CHR 0x85],
      [CHR 0xE2, CHR 0x80, CHR 0x86], [CHR 0xE2, CHR 0x80, CHR 0x87],
      [CHR 0xE2, CHR 0x80, CHR 0x88], [CHR 0xE2, CHR 0x80, CHR 0x89],
      [CHR 0xE2, CHR 0x80, CHR 0x8A], [CHR 0xE2, CHR 0x80, CHR 0xA8],
      [CHR 0xE2, CHR 0x80, CHR 0xA9], [CHR 0xE2, CHR 0x80, CHR 0xAF],
      [CHR 0xE2, CHR 0x81, CHR 0x9F], [CHR 0xE3, CHR 0x80, CHR 0x80],
      [CHR 0xEF, CHR 0xBB, CHR 0xBF]]"

text \<open>The length of the white-space character that \<open>s\<close> starts with, 0 when there is none.\<close>

fun ws_length :: "string list \<Rightarrow> string \<Rightarrow> nat" where
  "ws_length [] s = 0"
| "ws_length (w # ws) s =
     (if w \<noteq> [] \<and> take (length w) s = w then length w else ws_length ws s)"

lemma ws_length_le: "ws_length ws s \<le> length s"
proof (induction ws)
  case Nil
  show ?case by simp
next
  case (Cons w ws)
  have "length w \<le> length s" if "take (length w) s = w"
  proof -
    have "length (take (length w) s) = length w" using that by simp
    then show ?thesis by simp
  qed
  with Cons show ?case by simp
qed

function strip :: "string list \<Rightarrow> string \<Rightarrow> string" where
  "strip ws s = (if ws_length ws s = 0 then s else strip ws (drop (ws_length ws s) s))"
  by pat_completeness auto
termination
proof (relation "measure (\<lambda>(ws, s). length s)")
  show "wf (measure (\<lambda>(ws, s). length s))" by simp
next
  fix ws :: "string list" and s :: string
  assume "ws_length ws s \<noteq> 0"
  moreover have "ws_length ws s \<le> length s" by (rule ws_length_le)
  ultimately show "((ws, drop (ws_length ws s) s), (ws, s)) \<in> measure (\<lambda>(ws, s). length s)"
    by simp
qed

declare strip.simps [simp del]

definition trim :: "string \<Rightarrow> string" where
  "trim s = rev (strip (map rev white_space) (rev (strip white_space s)))"

subsection \<open>Requests, responses and the browser\<close>

text \<open>
  The payload of a save (\<^verbatim>\<open>jobData\<close>); \<open>data_appliedDate\<close> is \<open>None\<close> for \<^verbatim>\<open>null\<close>. A request
  carries the payload that \<^verbatim>\<open>JSON.stringify\<close> serialises, and its URL as a path with the
  list of query parameters that \<^verbatim>\<open>URLSearchParams\<close> serialises.
\<close>

record jobData =
  data_company :: string
  data_position :: string
  data_status :: string
  data_appliedDate :: "string option"
  data_jobUrl :: string
  data_salary :: string
  data_notes :: string

type_synonym url = "string \<times> (string \<times> string) list"

record request =
  req_method :: string
  req_url :: url
  req_headers :: "(string \<times> string) list"
  req_body :: "jobData option"

text \<open>
  A response: its status, what \<^verbatim>\<open>response.json()\<close> resolves to (\<open>None\<close> when the body does
  not parse, so that the promise rejects with a \<^verbatim>\<open>SyntaxError\<close>), and what
  \<^verbatim>\<open>response.blob()\<close> resolves to (\<open>None\<close> when it rejects).
\<close>

record response =
  resp_status :: nat
  resp_json :: "json option"
  resp_blob :: "string option"

datatype fetch_result = Rejected | Resolved response

definition ok :: "response \<Rightarrow> bool" where
  "ok r = (200 \<le> resp_status r \<and> resp_status r \<le> 299)"

text \<open>
  What the script asks of the browser: the answer to a request, the user's answer to a
  \<^verbatim>\<open>confirm\<close> dialog, \<^verbatim>\<open>new Date().toISOString()\<close>, and the three library functions above.
\<close>

record env =
  fetch :: "request \<Rightarrow> fetch_result"
  confirm :: "string \<Rightarrow> bool"
  now_iso :: string
  toUpperCase :: "string \<Rightarrow> string"
  toLocaleDateString :: "string \<Rightarrow> string option"
  numberToString :: "int \<Rightarrow> string"

text \<open>The actions the script performs on the outside world, logged in order.\<close>

datatype effect =
    Fetch request
  | Alert string
  | Confirm string
  | Navigate string
  | ConsoleError string
  | Download string
  | Loading string
  | FocusLater nat

text \<open>The options of \<^verbatim>\<open>apiRequest\<close>; the callers pass a method and a body or nothing.\<close>

record options =
  opt_method :: "string option"
  opt_body :: "jobData option"

definition no_options :: options where
  "no_options = \<lparr>opt_method = None, opt_body = None\<rparr>"

subsection \<open>The state of the client\<close>

text \<open>The values of the form's seven controls, named by their element ids.\<close>

record form =
  form_company :: string
  form_position :: string
  form_status :: string
  form_appliedDate :: string
  form_jobUrl :: string
  form_salary :: string
  form_notes :: string

text \<open>
  The four module variables, then the page. \<open>jobs\<close> is \<open>None\<close> when the variable holds
  \<^verbatim>\<open>undefined\<close>. \<open>jobForm_defaults\<close> are the values \<^verbatim>\<open>form.reset()\<close> restores and \<open>th_classes\<close> the
  class lists of the document's \<^verbatim>\<open>th\<close> cells: both come from the page's markup. The two
  statistics fields hold the value assigned to \<^verbatim>\<open>textContent\<close>.
\<close>

record state =
  jobs :: "json option"
  sortColumn :: string
  sortOrder :: string
  editingJobId :: "int option"
  jobForm :: form
  jobForm_defaults :: form
  jobModal_display :: string
  modalTitle :: string
  loading_display :: string
  jobTableBody :: string
  emptyState_display :: string
  th_classes :: "string list list"
  statusFilter :: string
  saveButton_disabled :: bool
  btnText_display :: string
  btnLoading_display :: string
  totalApps :: json
  interviewCount :: json
  effects :: "effect list"

definition emit :: "effect \<Rightarrow> state \<Rightarrow> state" where
  "emit e st = st\<lparr>effects := effects st @ [e]\<rparr>"

definition API_BASE :: string where
  "API_BASE = ''/api''"

text \<open>The truthiness of the edit-target id: \<^verbatim>\<open>null\<close> and \<open>0\<close> are falsy.\<close>

fun truthy_id :: "int option \<Rightarrow> bool" where
  "truthy_id None = False"
| "truthy_id (Some n) = (n \<noteq> 0)"

subsection \<open>API functions\<close>

text \<open>
  An asynchronous function is run to completion where it is called: the model has no
  second handler running between a request and its response. This also holds for
  \<^verbatim>\<open>loadStats()\<close> and \<^verbatim>\<open>loadJobs()\<close> where they are called without \<^verbatim>\<open>await\<close>; a request is
  logged at the point where the script sends it.

  A function that can throw returns the exception (\<open>Inl\<close>) or its value (\<open>Inr\<close>) together
  with the state, since what it wrote before throwing stays written.
\<close>

definition set_loading :: "string \<Rightarrow> state \<Rightarrow> state" where
  "set_loading v st = emit (Loading v) (st\<lparr>loading_display := v\<rparr>)"

text \<open>The \<^verbatim>\<open>catch\<close> and \<^verbatim>\<open>finally\<close> blocks of \<^verbatim>\<open>apiRequest\<close> on a \<^verbatim>\<open>throw\<close>.\<close>

definition api_throw :: "js_error \<Rightarrow> state \<Rightarrow> (js_error + json option) \<times> state" where
  "api_throw e st = (Inl e, set_loading ''none'' (emit (ConsoleError ''API Error:'') st))"

definition api_request_of :: "url \<Rightarrow> options \<Rightarrow> request" where
  "api_request_of u options =
     \<lparr>req_method = (case opt_method options of None \<Rightarrow> ''GET'' | Some m \<Rightarrow> m),
      req_url = u,
      req_headers = [(''Content-Type'', ''application/json'')],
      req_body = opt_body options\<rparr>"

definition apiRequest ::
  "env \<Rightarrow> url \<Rightarrow> options \<Rightarrow> state \<Rightarrow> (js_error + json option) \<times> state" where
  "apiRequest env u options st =
     (let st1 = emit (Fetch (api_request_of u options)) (set_loading ''flex'' st) in
      case fetch env (api_request_of u options) of
        Rejected \<Rightarrow> api_throw NetworkError st1
      | Resolved response \<Rightarrow>
          if \<not> ok response then
            if resp_status response = 401 then
              (Inr None, set_loading ''none'' (emit (Navigate ''/'') st1))
            else
              (case resp_json response of
                 None \<Rightarrow> api_throw SyntaxError st1
               | Some error \<Rightarrow>
                   (case get_prop error ''error'' of
                      Inl e \<Rightarrow> api_throw e st1
                    | Inr None \<Rightarrow> api_throw (Error (JStr ''Request failed'')) st1
                    | Inr (Some m) \<Rightarrow>
                        api_throw (Error (if truthy m then m else JStr ''Request failed'')) st1))
          else
            (case resp_json response of
               None \<Rightarrow> api_throw SyntaxError st1
             | Some v \<Rightarrow> (Inr (Some v), set_loading ''none'' st1)))"

text \<open>\<^verbatim>\<open>v || 0\<close> and \<^verbatim>\<open>stats.byStatus?.interview\<close>.\<close>

definition or_zero :: "json option \<Rightarrow> json" where
  "or_zero v = (case v of None \<Rightarrow> JNum 0 | Some x \<Rightarrow> if truthy x then x else JNum 0)"

definition updateStatsDisplay :: "json option \<Rightarrow> state \<Rightarrow> js_error + state" where
  "updateStatsDisplay stats st =
     (case stats of
        None \<Rightarrow> Inl TypeError
      | Some JNull \<Rightarrow> Inl TypeError
      | Some s \<Rightarrow>
          (case (get_prop s ''total'', get_prop s ''byStatus'') of
             (Inr tot, Inr byStatus) \<Rightarrow>
               Inr (st\<lparr>totalApps := or_zero tot,
                       interviewCount :=
                         or_zero (case byStatus of
                                    None \<Rightarrow> None
                                  | Some JNull \<Rightarrow> None
                                  | Some b \<Rightarrow> (case get_prop b ''interview'' of
                                                Inr v \<Rightarrow> v | Inl e \<Rightarrow> None))\<rparr>)
           | _ \<Rightarrow> Inl TypeError))"

definition loadStats :: "env \<Rightarrow> state \<Rightarrow> state" where
  "loadStats env st =
     (case apiRequest env (API_BASE @ ''/stats'', []) no_options st of
        (Inl e, st1) \<Rightarrow> emit (ConsoleError ''Failed to load stats:'') st1
      | (Inr stats, st1) \<Rightarrow>
          (case updateStatsDisplay stats st1 of
             Inl e \<Rightarrow> emit (ConsoleError ''Failed to load stats:'') st1
           | Inr st2 \<Rightarrow> st2))"

subsection \<open>Table rendering\<close>

text \<open>The template literal of one table row.\<close>

definition renderRow :: "env \<Rightarrow> job \<Rightarrow> string" where
  \<open>renderRow env job =
     ''\<newline>            <tr>\<newline>                <td>\<newline>                    <div>\<newline>                        <strong>''
     @ escapeHtml (company job)
     @ ''</strong>\<newline>                        ''
     @ (if truthy_str (job_url job)
        then ''<br><a href="'' @ escapeHtml (job_url job)
             @ ''" target="_blank" style="font-size: 12px; color: #007bff;" title="View Job Posting">''
             @ [CHR 0xF0, CHR 0x9F, CHR 0x94, CHR 0x97] @ '' View Job</a>''
        else '''')
     @ ''\<newline>                    </div>\<newline>                </td>\<newline>                <td>''
     @ escapeHtml (position job)
     @ ''</td>\<newline>                <td><span class="status ''
     @ to_string (status job)
     @ ''">''
     @ capitalizeFirst (toUpperCase env) (status job)
     @ ''</span></td>\<newline>                <td>''
     @ formatDate (toLocaleDateString env) (applied_date job)
     @ ''</td>\<newline>                <td>\<newline>                    <div class="action-buttons">\<newline>                        <button class="btn btn-primary" onclick="openModal(''
     @ number_to_string (numberToString env) (job_id job)
     @ '')" title="Edit Application">\<newline>                            ''
     @ [CHR 0xE2, CHR 0x9C, CHR 0x8F, CHR 0xEF, CHR 0xB8, CHR 0x8F]
     @ '' Edit\<newline>                        </button>\<newline>                        <button class="btn btn-danger" onclick="deleteJob(''
     @ number_to_string (numberToString env) (job_id job)
     @ '')" title="Delete Application">\<newline>                            ''
     @ [CHR 0xF0, CHR 0x9F, CHR 0x97, CHR 0x91, CHR 0xEF, CHR 0xB8, CHR 0x8F]
     @ '' Delete\<newline>                        </button>\<newline>                    </div>\<newline>                </td>\<newline>            </tr>\<newline>        ''\<close>

text \<open>
  \<^verbatim>\<open>jobs.length === 0\<close> on whatever the variable holds: a \<^verbatim>\<open>TypeError\<close> on \<^verbatim>\<open>undefined\<close> and
  \<^verbatim>\<open>null\<close>, the length of an array or a string, the property \<^verbatim>\<open>length\<close> of an object.
\<close>

fun length_is_zero :: "json option \<Rightarrow> js_error + bool" where
  "length_is_zero None = Inl TypeError"
| "length_is_zero (Some JNull) = Inl TypeError"
| "length_is_zero (Some (JJobs js)) = Inr (js = [])"
| "length_is_zero (Some (JStr s)) = Inr (s = [])"
| "length_is_zero (Some (JObj kvs)) = Inr (map_of (rev kvs) ''length'' = Some (JNum 0))"
| "length_is_zero (Some v) = Inr False"

text \<open>The array behind \<^verbatim>\<open>jobs.map\<close> and \<^verbatim>\<open>jobs.find\<close>: only an array has these methods.\<close>

fun as_array :: "json option \<Rightarrow> js_error + job list" where
  "as_array (Some (JJobs js)) = Inr js"
| "as_array v = Inl TypeError"

definition renderTable :: "env \<Rightarrow> state \<Rightarrow> (js_error + unit) \<times> state" where
  "renderTable env st =
     (case length_is_zero (jobs st) of
        Inl e \<Rightarrow> (Inl e, st)
      | Inr True \<Rightarrow> (Inr (), st\<lparr>jobTableBody := '''', emptyState_display := ''block''\<rparr>)
      | Inr False \<Rightarrow>
          (let st1 = st\<lparr>emptyState_display := ''none''\<rparr> in
           case as_array (jobs st1) of
             Inl e \<Rightarrow> (Inl e, st1)
           | Inr js \<Rightarrow> (Inr (), st1\<lparr>jobTableBody := concat (map (renderRow env) js)\<rparr>)))"

definition loadJobs :: "env \<Rightarrow> state \<Rightarrow> state" where
  "loadJobs env st =
     (let params = [(''sort_by'', sortColumn st), (''sort_order'', sortOrder st)]
                   @ (if statusFilter st \<noteq> '''' then [(''status'', statusFilter st)] else [])
      in case apiRequest env (API_BASE @ ''/jobs'', params) no_options st of
           (Inl e, st1) \<Rightarrow> emit (ConsoleError ''Failed to load jobs:'') st1
         | (Inr v, st1) \<Rightarrow>
             (case renderTable env (st1\<lparr>jobs := v\<rparr>) of
                (Inl e, st2) \<Rightarrow> emit (ConsoleError ''Failed to load jobs:'') st2
              | (Inr u, st2) \<Rightarrow> loadStats env st2))"

definition saveJob :: "env \<Rightarrow> jobData \<Rightarrow> state \<Rightarrow> (js_error + json option) \<times> state" where
  "saveJob env jobData st =
     (let u = (if truthy_id (editingJobId st)
               then API_BASE @ ''/jobs/'' @ id_string (numberToString env) (editingJobId st)
               else API_BASE @ ''/jobs'');
          method = (if truthy_id (editingJobId st) then ''PUT'' else ''POST'')
      in apiRequest env (u, []) \<lparr>opt_method = Some method, opt_body = Some jobData\<rparr> st)"

definition deleteJobById :: "env \<Rightarrow> int \<Rightarrow> state \<Rightarrow> (js_error + unit) \<times> state" where
  "deleteJobById env jobId st =
     (case apiRequest env (API_BASE @ ''/jobs/'' @ number_to_string (numberToString env) jobId, [])
             \<lparr>opt_method = Some ''DELETE'', opt_body = None\<rparr> st of
        (Inl e, st1) \<Rightarrow> (Inl e, st1)
      | (Inr v, st1) \<Rightarrow> (Inr (), st1))"

subsection \<open>Modal functions\<close>

text \<open>\<^verbatim>\<open>new Date().toISOString().split('T')[0]\<close>: the timestamp up to its first \<open>T\<close>.\<close>

definition today :: "env \<Rightarrow> string" where
  "today env = takeWhile (\<lambda>c. c \<noteq> CHR ''T'') (now_iso env)"

definition populateForm :: "job \<Rightarrow> state \<Rightarrow> state" where
  "populateForm job st =
     st\<lparr>jobForm :=
          \<lparr>form_company = or_else (company job) '''',
           form_position = or_else (position job) '''',
           form_status = or_else (status job) ''applied'',
           form_appliedDate = or_else (applied_date job) '''',
           form_jobUrl = or_else (job_url job) '''',
           form_salary = or_else (salary job) '''',
           form_notes = or_else (job_notes job) ''''\<rparr>\<rparr>"

text \<open>The end of \<^verbatim>\<open>openModal\<close>: the modal is shown and the focus is scheduled.\<close>

definition show_modal :: "state \<Rightarrow> (js_error + unit) \<times> state" where
  "show_modal st = (Inr (), emit (FocusLater 100) (st\<lparr>jobModal_display := ''block''\<rparr>))"

definition openModal :: "env \<Rightarrow> int option \<Rightarrow> state \<Rightarrow> (js_error + unit) \<times> state" where
  "openModal env jobId st =
     (let st1 = st\<lparr>editingJobId := jobId\<rparr> in
      if truthy_id jobId then
        (let st2 = st1\<lparr>modalTitle := ''Edit Application''\<rparr> in
         case as_array (jobs st2) of
           Inl e \<Rightarrow> (Inl e, st2)
         | Inr js \<Rightarrow>
             (case find (\<lambda>j. Some (job_id j) = jobId) js of
                Some job \<Rightarrow> show_modal (populateForm job st2)
              | None \<Rightarrow> show_modal st2))
      else
        show_modal
          (st1\<lparr>modalTitle := ''Add New Application'',
               jobForm := (jobForm_defaults st1)\<lparr>form_appliedDate := today env\<rparr>\<rparr>))"

definition closeModal :: "state \<Rightarrow> state" where
  "closeModal st = st\<lparr>jobModal_display := ''none'', editingJobId := None\<rparr>"

subsection \<open>Form submission\<close>

definition read_form :: "state \<Rightarrow> jobData" where
  "read_form st =
     \<lparr>data_company = trim (form_company (jobForm st)),
      data_position = trim (form_position (jobForm st)),
      data_status = form_status (jobForm st),
      data_appliedDate =
        (if form_appliedDate (jobForm st) = '''' then None
         else Some (form_appliedDate (jobForm st))),
      data_jobUrl = trim (form_jobUrl (jobForm st)),
      data_salary = trim (form_salary (jobForm st)),
      data_notes = trim (form_notes (jobForm st))\<rparr>"

text \<open>The loading state of the save button, and the \<^verbatim>\<open>finally\<close> block that resets it.\<close>

definition button_busy :: "state \<Rightarrow> state" where
  "button_busy st =
     st\<lparr>saveButton_disabled := True, btnText_display := ''none'',
        btnLoading_display := ''inline''\<rparr>"

definition button_reset :: "state \<Rightarrow> state" where
  "button_reset st =
     st\<lparr>saveButton_disabled := False, btnText_display := ''inline'',
        btnLoading_display := ''none''\<rparr>"

definition handleFormSubmit :: "env \<Rightarrow> state \<Rightarrow> state" where
  "handleFormSubmit env st =
     (let st1 = button_busy st; jobData = read_form st1 in
      if data_company jobData = '''' \<or> data_position jobData = '''' then
        button_reset (emit (Alert ''Company and Position are required fields'') st1)
      else
        (case saveJob env jobData st1 of
           (Inl e, st2) \<Rightarrow>
             button_reset
               (emit (Alert ''Failed to save application. Please try again.'')
                  (emit (ConsoleError ''Failed to save job:'') st2))
         | (Inr v, st2) \<Rightarrow> button_reset (closeModal (loadJobs env st2))))"

subsection \<open>Job management\<close>

definition deleteJob :: "env \<Rightarrow> int \<Rightarrow> state \<Rightarrow> state" where
  "deleteJob env jobId st =
     (let st0 = emit (Confirm ''Are you sure you want to delete this application?'') st in
      if \<not> confirm env ''Are you sure you want to delete this application?'' then st0
      else
        (case deleteJobById env jobId st0 of
           (Inl e, st1) \<Rightarrow>
             emit (Alert ''Failed to delete application. Please try again.'')
               (emit (ConsoleError ''Failed to delete job:'') st1)
         | (Inr u, st1) \<Rightarrow> loadJobs env st1))"

subsection \<open>Sorting and filtering\<close>

text \<open>\<^verbatim>\<open>indexOf\<close>, with \<open>None\<close> for \<open>-1\<close>; \<^verbatim>\<open>classList.remove\<close> of the two sort classes and \<^verbatim>\<open>classList.add\<close>.\<close>

fun indexOf :: "'a list \<Rightarrow> 'a \<Rightarrow> nat option" where
  "indexOf [] x = None"
| "indexOf (y # ys) x = (if x = y then Some 0 else map_option Suc (indexOf ys x))"

definition remove_sort :: "string list \<Rightarrow> string list" where
  "remove_sort cls = filter (\<lambda>c. c \<noteq> ''sort-asc'' \<and> c \<noteq> ''sort-desc'') cls"

definition add_class :: "string \<Rightarrow> string list \<Rightarrow> string list" where
  "add_class c cls = (if c \<in> set cls then cls else cls @ [c])"

definition sortTable :: "env \<Rightarrow> string \<Rightarrow> state \<Rightarrow> (js_error + unit) \<times> state" where
  "sortTable env column st =
     (let st1 = (if sortColumn st = column
                 then st\<lparr>sortOrder := (if sortOrder st = ''asc'' then ''desc'' else ''asc'')\<rparr>
                 else st\<lparr>sortColumn := column, sortOrder := ''asc''\<rparr>);
          st2 = st1\<lparr>th_classes := map remove_sort (th_classes st1)\<rparr>
      in case indexOf [''company'', ''position'', ''status'', ''applied_date''] column of
           None \<Rightarrow> (Inr (), loadJobs env st2)
         | Some columnIndex \<Rightarrow>
             if columnIndex < length (th_classes st2) then
               (Inr (),
                loadJobs env
                  (st2\<lparr>th_classes :=
                         (th_classes st2)
                           [columnIndex :=
                              add_class (''sort-'' @ sortOrder st2)
                                (th_classes st2 ! columnIndex)]\<rparr>))
             else (Inl TypeError, st2))"

definition clearFilters :: "env \<Rightarrow> state \<Rightarrow> state" where
  "clearFilters env st = loadJobs env (st\<lparr>statusFilter := ''''\<rparr>)"

subsection \<open>CSV export\<close>

definition export_request :: request where
  "export_request =
     \<lparr>req_method = ''GET'', req_url = (API_BASE @ ''/export/csv'', []),
      req_headers = [], req_body = None\<rparr>"

definition export_failed :: "state \<Rightarrow> state" where
  "export_failed st =
     emit (Alert ''Failed to export data. Please try again.'')
       (emit (ConsoleError ''Export failed:'') st)"

definition exportToCSV :: "env \<Rightarrow> state \<Rightarrow> state" where
  "exportToCSV env st =
     (let st1 = emit (Fetch export_request) st in
      case fetch env export_request of
        Rejected \<Rightarrow> export_failed st1
      | Resolved response \<Rightarrow>
          if \<not> ok response then export_failed st1
          else
            (case resp_blob response of
               None \<Rightarrow> export_failed st1
             | Some blob \<Rightarrow>
                 emit (Download (''job_applications_'' @ today env @ ''.csv'')) st1))"

subsection \<open>The client as a transition system\<close>

text \<open>
  The script's entry points, as the page and its keyboard shortcuts call them, and the
  user typing into the form or choosing a filter. Each event comes with the answers of
  the browser and the server during its handler.
\<close>

datatype event =
    OpenModal "int option"
  | CloseModal
  | Submit
  | DeleteJob int
  | SortTable string
  | ClearFilters
  | ExportToCSV
  | LoadJobs
  | LoadStats
  | EditForm form
  | SelectFilter string

fun step :: "env \<times> event \<Rightarrow> state \<Rightarrow> state" where
  "step (env, OpenModal jobId) st = snd (openModal env jobId st)"
| "step (env, CloseModal) st = closeModal st"
| "step (env, Submit) st = handleFormSubmit env st"
| "step (env, DeleteJob jobId) st = deleteJob env jobId st"
| "step (env, SortTable column) st = snd (sortTable env column st)"
| "step (env, ClearFilters) st = clearFilters env st"
| "step (env, ExportToCSV) st = exportToCSV env st"
| "step (env, LoadJobs) st = loadJobs env st"
| "step (env, LoadStats) st = loadStats env st"
| "step (env, EditForm f) st = st\<lparr>jobForm := f\<rparr>"
| "step (env, SelectFilter v) st = st\<lparr>statusFilter := v\<rparr>"

definition run :: "(env \<times> event) list \<Rightarrow> state \<Rightarrow> state" where
  "run evs st = fold step evs st"

text \<open>The module variables as the script initialises them, on a page \<open>page\<close>.\<close>

definition initial :: "state \<Rightarrow> state" where
  "initial page =
     page\<lparr>jobs := Some (JJobs []), sortColumn := ''created_at'', sortOrder := ''desc'',
          editingJobId := None, effects := []\<rparr>"

section \<open>Properties\<close>

subsection \<open>Example values\<close>

text \<open>A page, a record and a browser on which the theorems below are instantiated.\<close>

definition blank_form :: form where
  "blank_form =
     \<lparr>form_company = '''', form_position = '''', form_status = '''', form_appliedDate = '''',
      form_jobUrl = '''', form_salary = '''', form_notes = ''''\<rparr>"

definition demo_page :: state where
  "demo_page =
     \<lparr>jobs = Some (JJobs []), sortColumn = ''created_at'', sortOrder = ''desc'',
      editingJobId = None, jobForm = blank_form, jobForm_defaults = blank_form,
      jobModal_display = ''none'', modalTitle = '''', loading_display = ''none'',
      jobTableBody = '''', emptyState_display = ''none'',
      th_classes = [[], [], [], [], []], statusFilter = '''',
      saveButton_disabled = False, btnText_display = ''inline'',
      btnLoading_display = ''none'', totalApps = JNum 0, interviewCount = JNum 0,
      effects = []\<rparr>"

definition demo_job :: job where
  "demo_job =
     \<lparr>job_id = 7, company = Str ''Acme'', position = Str ''Engineer'',
      status = Str ''applied'', applied_date = Null, job_url = Str ''https://acme.test'',
      salary = Undefined, job_notes = Str ''call back''\<rparr>"

definition demo_env :: "fetch_result \<Rightarrow> bool \<Rightarrow> env" where
  "demo_env answer yes =
     \<lparr>fetch = (\<lambda>r. answer), confirm = (\<lambda>m. yes), now_iso = ''2024-05-06T07:08:09.000Z'',
      toUpperCase = (\<lambda>s. s), toLocaleDateString = (\<lambda>s. Some s),
      numberToString = (\<lambda>i. ''1e+21'')\<rparr>"

text \<open>A browser in which every request gets the status \<open>s\<close> and the parsed body \<open>b\<close>.\<close>

definition replying :: "nat \<Rightarrow> json option \<Rightarrow> env" where
  "replying s b =
     demo_env (Resolved \<lparr>resp_status = s, resp_json = b, resp_blob = None\<rparr>) True"

subsection \<open>Escaping\<close>





























subsection \<open>What a handler adds to the log and what it leaves alone\<close>

text \<open>The requests and the alerts of a log, in order.\<close>

fun requests :: "effect list \<Rightarrow> request list" where
  "requests [] = []"
| "requests (Fetch r # es) = r # requests es"
| "requests (e # es) = requests es"

fun alerts :: "effect list \<Rightarrow> string list" where
  "alerts [] = []"
| "alerts (Alert m # es) = m # alerts es"
| "alerts (e # es) = alerts es"

lemma requests_append [simp]: "requests (xs @ ys) = requests xs @ requests ys"
  by (induction xs rule: requests.induct) simp_all

lemma alerts_append [simp]: "alerts (xs @ ys) = alerts xs @ alerts ys"
  by (induction xs rule: alerts.induct) simp_all

text \<open>
  The parts of the state that no request, no rendering and no statistics update writes:
  the sort state, the edit-target id, the form, the modal, the headers, the filter and
  the save button.
\<close>

definition controls ::
  "state \<Rightarrow> (string \<times> string \<times> int option) \<times> (form \<times> form \<times> string \<times> string)
            \<times> (string list list \<times> string) \<times> (bool \<times> string \<times> string)" where
  "controls st =
     ((sortColumn st, sortOrder st, editingJobId st),
      (jobForm st, jobForm_defaults st, jobModal_display st, modalTitle st),
      (th_classes st, statusFilter st),
      (saveButton_disabled st, btnText_display st, btnLoading_display st))"

lemma controls_fields:
  assumes "controls a = controls b"
  shows "sortColumn a = sortColumn b" and "sortOrder a = sortOrder b"
    and "editingJobId a = editingJobId b" and "jobForm a = jobForm b"
    and "jobForm_defaults a = jobForm_defaults b"
    and "jobModal_display a = jobModal_display b" and "modalTitle a = modalTitle b"
    and "th_classes a = th_classes b" and "statusFilter a = statusFilter b"
    and "saveButton_disabled a = saveButton_disabled b"
    and "btnText_display a = btnText_display b"
    and "btnLoading_display a = btnLoading_display b"
  using assms by (simp_all add: controls_def)

text \<open>
  \<open>apiRequest\<close> in closed form: its outcome depends on the answer alone, and it writes the
  loading indicator and the log only.
\<close>

definition api_outcome :: "fetch_result \<Rightarrow> js_error + json option" where
  "api_outcome a =
     (case a of
        Rejected \<Rightarrow> Inl NetworkError
      | Resolved r \<Rightarrow>
          if ok r then (case resp_json r of None \<Rightarrow> Inl SyntaxError | Some v \<Rightarrow> Inr (Some v))
          else if resp_status r = 401 then Inr None
          else (case resp_json r of
                  None \<Rightarrow> Inl SyntaxError
                | Some b \<Rightarrow>
                    (case get_prop b ''error'' of
                       Inl e \<Rightarrow> Inl e
                     | Inr None \<Rightarrow> Inl (Error (JStr ''Request failed''))
                     | Inr (Some m) \<Rightarrow>
                         Inl (Error (if truthy m then m else JStr ''Request failed'')))))"

definition api_trail :: "fetch_result \<Rightarrow> effect list" where
  "api_trail a =
     (case api_outcome a of
        Inl e \<Rightarrow> [ConsoleError ''API Error:'']
      | Inr None \<Rightarrow> [Navigate ''/'']
      | Inr (Some v) \<Rightarrow> [])"

lemma apiRequest_closed:
  "apiRequest env u opts st =
     (api_outcome (fetch env (api_request_of u opts)),
      st\<lparr>loading_display := ''none'',
         effects := effects st @ [Loading ''flex'', Fetch (api_request_of u opts)]
                    @ api_trail (fetch env (api_request_of u opts)) @ [Loading ''none'']\<rparr>)"
  by (simp add: apiRequest_def api_outcome_def api_trail_def api_throw_def set_loading_def
      emit_def Let_def split: fetch_result.split option.split sum.split)

lemma requests_api_trail [simp]: "requests (api_trail a) = []"
  by (simp add: api_trail_def split: sum.split option.split)

lemma alerts_api_trail [simp]: "alerts (api_trail a) = []"
  by (simp add: api_trail_def split: sum.split option.split)

lemma renderTable_frame:
  "controls (snd (renderTable env st)) = controls st"
  "jobs (snd (renderTable env st)) = jobs st"
  "effects (snd (renderTable env st)) = effects st"
  by (simp_all add: renderTable_def controls_def Let_def split: sum.split bool.split)

definition stats_request :: request where
  "stats_request = api_request_of (API_BASE @ ''/stats'', []) no_options"

lemma updateStatsDisplay_frame:
  assumes "updateStatsDisplay stats st = Inr st'"
  shows "controls st' = controls st" and "jobs st' = jobs st" and "effects st' = effects st"
  using assms
  by (auto simp add: updateStatsDisplay_def controls_def
      split: option.splits json.splits sum.splits)

lemma loadStats_frame:
  "controls (loadStats env st) = controls st"
  "jobs (loadStats env st) = jobs st"
  "requests (effects (loadStats env st)) = requests (effects st) @ [stats_request]"
  "alerts (effects (loadStats env st)) = alerts (effects st)"
  by (auto simp add: loadStats_def apiRequest_closed stats_request_def emit_def controls_def
      split: sum.split dest: updateStatsDisplay_frame)

definition jobs_request :: "state \<Rightarrow> request" where
  "jobs_request st =
     api_request_of
       (API_BASE @ ''/jobs'',
        [(''sort_by'', sortColumn st), (''sort_order'', sortOrder st)]
        @ (if statusFilter st \<noteq> '''' then [(''status'', statusFilter st)] else []))
       no_options"

text \<open>The state after \<open>apiRequest\<close> has sent \<open>req\<close> and received the answer \<open>a\<close>.\<close>

definition after_api :: "fetch_result \<Rightarrow> request \<Rightarrow> state \<Rightarrow> state" where
  "after_api a req st =
     st\<lparr>loading_display := ''none'',
        effects := effects st @ [Loading ''flex'', Fetch req] @ api_trail a @ [Loading ''none'']\<rparr>"

lemma apiRequest_after:
  "apiRequest env u opts st =
     (api_outcome (fetch env (api_request_of u opts)),
      after_api (fetch env (api_request_of u opts)) (api_request_of u opts) st)"
  by (simp add: apiRequest_closed after_api_def)

lemma after_api_frame [simp]:
  "controls (after_api a req st) = controls st"
  "jobs (after_api a req st) = jobs st"
  "requests (effects (after_api a req st)) = requests (effects st) @ [req]"
  "alerts (effects (after_api a req st)) = alerts (effects st)"
  by (simp_all add: after_api_def controls_def)

lemma emit_frame [simp]:
  "controls (emit e st) = controls st"
  "jobs (emit e st) = jobs st"
  "effects (emit e st) = effects st @ [e]"
  by (simp_all add: emit_def controls_def)

lemma renderTable_result:
  assumes "renderTable env st = (r, st')"
  shows "controls st' = controls st" and "jobs st' = jobs st" and "effects st' = effects st"
  using assms renderTable_frame [of env st] by simp_all

lemma loadJobs_unfold:
  "loadJobs env st =
     (case api_outcome (fetch env (jobs_request st)) of
        Inl e \<Rightarrow>
          emit (ConsoleError ''Failed to load jobs:'')
            (after_api (fetch env (jobs_request st)) (jobs_request st) st)
      | Inr v \<Rightarrow>
          (case renderTable env
                  ((after_api (fetch env (jobs_request st)) (jobs_request st) st)\<lparr>jobs := v\<rparr>) of
             (Inl e, st2) \<Rightarrow> emit (ConsoleError ''Failed to load jobs:'') st2
           | (Inr u, st2) \<Rightarrow> loadStats env st2))"
  unfolding loadJobs_def apiRequest_after jobs_request_def Let_def
  by (simp split: sum.split)

lemma controls_jobs_update [simp]: "controls (st\<lparr>jobs := v\<rparr>) = controls st"
  by (simp add: controls_def)

text \<open>
  A reload sends the list request and, when the list arrived and was rendered, the
  statistics request; it replaces the list by what the server sent and shows no alert.
\<close>

lemma loadJobs_controls: "controls (loadJobs env st) = controls st"
  by (auto simp add: loadJobs_unfold loadStats_frame
      split: sum.split prod.split dest!: renderTable_result(1))

lemma loadJobs_alerts: "alerts (effects (loadJobs env st)) = alerts (effects st)"
  by (auto simp add: loadJobs_unfold loadStats_frame
      split: sum.split prod.split dest!: renderTable_result(3))

lemma loadJobs_jobs:
  "jobs (loadJobs env st) =
     (case api_outcome (fetch env (jobs_request st)) of Inl e \<Rightarrow> jobs st | Inr v \<Rightarrow> v)"
  by (auto simp add: loadJobs_unfold loadStats_frame
      split: sum.split prod.split dest!: renderTable_result(2))

lemma loadJobs_requests:
  "requests (effects (loadJobs env st)) = requests (effects st) @ [jobs_request st]
   \<or> requests (effects (loadJobs env st))
       = requests (effects st) @ [jobs_request st, stats_request]"
  by (auto simp add: loadJobs_unfold loadStats_frame
      split: sum.split prod.split dest!: renderTable_result(3))

subsection \<open>The HTTP wrapper\<close>

text \<open>
  Claim C7. When the response to a request made through \<open>apiRequest\<close> has status 401, the
  wrapper sets the location to the landing route \<open>/\<close>, logs and shows nothing else (no
  alert, no console error), hides the loading indicator, and returns \<^verbatim>\<open>undefined\<close>: it
  resolves to no value and throws nothing.
\<close>

theorem apiRequest_401:
  assumes "fetch env (api_request_of u opts) = Resolved r" and "resp_status r = 401"
  shows "apiRequest env u opts st =
           (Inr None,
            st\<lparr>loading_display := ''none'',
               effects := effects st @ [Loading ''flex'', Fetch (api_request_of u opts),
                                        Navigate ''/'', Loading ''none'']\<rparr>)
         \<and> alerts (effects (snd (apiRequest env u opts st))) = alerts (effects st)"
proof -
  from assms have "api_outcome (fetch env (api_request_of u opts)) = Inr None"
    by (simp add: api_outcome_def ok_def)
  then show ?thesis
    by (simp add: apiRequest_closed api_trail_def)
qed

theorem apiRequest_401_witness:
  "apiRequest (demo_env (Resolved \<lparr>resp_status = 401, resp_json = None, resp_blob = None\<rparr>) True)
     (''/api/stats'', []) no_options demo_page =
       (Inr None,
        demo_page\<lparr>loading_display := ''none'',
          effects := effects demo_page
             @ [Loading ''flex'', Fetch (api_request_of (''/api/stats'', []) no_options),
                Navigate ''/'', Loading ''none'']\<rparr>)
   \<and> alerts (effects (snd (apiRequest
         (demo_env (Resolved \<lparr>resp_status = 401, resp_json = None, resp_blob = None\<rparr>) True)
         (''/api/stats'', []) no_options demo_page))) = alerts (effects demo_page)"
  using apiRequest_401
    [where env = "demo_env (Resolved \<lparr>resp_status = 401, resp_json = None, resp_blob = None\<rparr>) True"
       and u = "(''/api/stats'', [])" and opts = no_options
       and r = "\<lparr>resp_status = 401, resp_json = None, resp_blob = None\<rparr>" and st = demo_page]
  by (simp add: demo_env_def)

text \<open>
  Claim C8, as the code has it. When the response has a status outside 200 to 299 other
  than 401, the wrapper throws. The error carries the value of the body's \<open>error\<close>
  property when the body parses to an object in which that property is truthy (a
  non-empty string), and the fallback \<open>Request failed\<close> when the body parses to a value
  other than \<^verbatim>\<open>null\<close> in which the property is missing or falsy. When the body does not
  parse, what is thrown is the parser's \<^verbatim>\<open>SyntaxError\<close>, not the fallback; a body \<^verbatim>\<open>null\<close>
  gives a \<^verbatim>\<open>TypeError\<close>.
\<close>

theorem apiRequest_error_envelope:
  assumes "fetch env (api_request_of u opts) = Resolved r"
    and "\<not> ok r" and "resp_status r \<noteq> 401"
  shows "(\<exists>e. fst (apiRequest env u opts st) = Inl e)
    \<and> (\<forall>kvs m. resp_json r = Some (JObj kvs) \<and> map_of (rev kvs) ''error'' = Some m \<and> truthy m
          \<longrightarrow> fst (apiRequest env u opts st) = Inl (Error m))
    \<and> (\<forall>kvs m. resp_json r = Some (JObj kvs) \<and> map_of (rev kvs) ''error'' = Some m \<and> \<not> truthy m
          \<longrightarrow> fst (apiRequest env u opts st) = Inl (Error (JStr ''Request failed'')))
    \<and> (\<forall>b. resp_json r = Some b \<and> get_prop b ''error'' = Inr None
          \<longrightarrow> fst (apiRequest env u opts st) = Inl (Error (JStr ''Request failed'')))
    \<and> (resp_json r = None \<longrightarrow> fst (apiRequest env u opts st) = Inl SyntaxError)
    \<and> (resp_json r = Some JNull \<longrightarrow> fst (apiRequest env u opts st) = Inl TypeError)"
  using assms
  by (simp add: apiRequest_closed api_outcome_def split: option.split sum.split)

theorem apiRequest_error_envelope_witness:
  "fst (apiRequest (replying 404 (Some (JObj [(''error'', JStr ''Job not found'')])))
          (''/api/jobs/7'', []) no_options demo_page)
     = Inl (Error (JStr ''Job not found''))
   \<and> fst (apiRequest (replying 400 (Some (JObj [(''error'', JNull)])))
          (''/api/jobs/7'', []) no_options demo_page)
     = Inl (Error (JStr ''Request failed''))
   \<and> fst (apiRequest (replying 500 (Some (JObj [(''message'', JStr ''boom'')])))
          (''/api/jobs/7'', []) no_options demo_page)
     = Inl (Error (JStr ''Request failed''))
   \<and> fst (apiRequest (replying 502 None) (''/api/jobs/7'', []) no_options demo_page)
     = Inl SyntaxError
   \<and> fst (apiRequest (replying 500 (Some JNull)) (''/api/jobs/7'', []) no_options demo_page)
     = Inl TypeError"
proof -
  let ?u = "(''/api/jobs/7'', [])"
  have r: "fetch (replying s b) (api_request_of ?u no_options)
      = Resolved \<lparr>resp_status = s, resp_json = b, resp_blob = None\<rparr>" for s b
    by (simp add: replying_def demo_env_def)
  note t = apiRequest_error_envelope [OF r, where st = demo_page]
  have a: "fst (apiRequest (replying 404 (Some (JObj [(''error'', JStr ''Job not found'')])))
          ?u no_options demo_page) = Inl (Error (JStr ''Job not found''))"
    using t [of 404 "Some (JObj [(''error'', JStr ''Job not found'')])"]
    by (simp add: ok_def)
  have b: "fst (apiRequest (replying 400 (Some (JObj [(''error'', JNull)])))
          ?u no_options demo_page) = Inl (Error (JStr ''Request failed''))"
    using t [of 400 "Some (JObj [(''error'', JNull)])"]
    by (simp add: ok_def)
  have c: "fst (apiRequest (replying 500 (Some (JObj [(''message'', JStr ''boom'')])))
          ?u no_options demo_page) = Inl (Error (JStr ''Request failed''))"
    using t [of 500 "Some (JObj [(''message'', JStr ''boom'')])"]
    by (simp add: ok_def)
  have d: "fst (apiRequest (replying 502 None) ?u no_options demo_page) = Inl SyntaxError"
    using t [of 502 None]
    by (simp add: ok_def)
  have e: "fst (apiRequest (replying 500 (Some JNull)) ?u no_options demo_page) = Inl TypeError"
    using t [of 500 "Some JNull"]
    by (simp add: ok_def)
  from a b c d e show ?thesis by (intro conjI)
qed

text \<open>
  Against the claim as it was stated: a response with status 500 whose body does not
  parse makes the wrapper throw the \<^verbatim>\<open>SyntaxError\<close>, which is not the fallback error; and a
  body whose \<open>error\<close> property is the empty string gives the fallback, not the property.
\<close>

theorem apiRequest_unparsable_counterexample:
  "fst (apiRequest
         (demo_env (Resolved \<lparr>resp_status = 500, resp_json = None, resp_blob = None\<rparr>) True)
         (''/api/jobs'', []) no_options demo_page)
     = Inl SyntaxError
   \<and> fst (apiRequest
         (demo_env (Resolved \<lparr>resp_status = 500, resp_json = None, resp_blob = None\<rparr>) True)
         (''/api/jobs'', []) no_options demo_page)
     \<noteq> Inl (Error (JStr ''Request failed''))
   \<and> fst (apiRequest
         (demo_env (Resolved \<lparr>resp_status = 500,
                               resp_json = Some (JObj [(''error'', JStr '''')]),
                               resp_blob = None\<rparr>) True)
         (''/api/jobs'', []) no_options demo_page)
     = Inl (Error (JStr ''Request failed''))"
  by (simp add: apiRequest_def demo_env_def ok_def api_throw_def Let_def)

subsection \<open>CSV export\<close>

text \<open>The writes to the loading indicator in a log.\<close>

fun loadings :: "effect list \<Rightarrow> string list" where
  "loadings [] = []"
| "loadings (Loading v # es) = v # loadings es"
| "loadings (e # es) = loadings es"

lemma loadings_append [simp]: "loadings (xs @ ys) = loadings xs @ loadings ys"
  by (induction xs rule: loadings.induct) simp_all

text \<open>
  Claim C10. \<open>exportToCSV\<close> does not go through \<open>apiRequest\<close>: its request carries none of
  the wrapper's headers. When the request is rejected or the response is not in 200 to
  299 (401 included), the handler logs the failure and shows the retry alert, and does
  nothing else: no navigation, no download, and the page is as before. Whatever the
  answer, it never writes the loading indicator.
\<close>

theorem exportToCSV_failure:
  "(fetch env export_request = Rejected
      \<or> (\<exists>r. fetch env export_request = Resolved r \<and> \<not> ok r)
    \<longrightarrow> exportToCSV env st =
          st\<lparr>effects := effects st @ [Fetch export_request, ConsoleError ''Export failed:'',
                                     Alert ''Failed to export data. Please try again.'']\<rparr>)
   \<and> loadings (effects (exportToCSV env st)) = loadings (effects st)
   \<and> loading_display (exportToCSV env st) = loading_display st
   \<and> export_request \<noteq> api_request_of u opts"
  by (auto simp add: exportToCSV_def export_failed_def emit_def Let_def export_request_def
      api_request_of_def split: fetch_result.split option.split)

theorem exportToCSV_failure_witness:
  "exportToCSV (replying 401 None) demo_page =
     demo_page\<lparr>effects := effects demo_page
        @ [Fetch export_request, ConsoleError ''Export failed:'',
           Alert ''Failed to export data. Please try again.'']\<rparr>
   \<and> exportToCSV (demo_env Rejected True) demo_page =
     demo_page\<lparr>effects := effects demo_page
        @ [Fetch export_request, ConsoleError ''Export failed:'',
           Alert ''Failed to export data. Please try again.'']\<rparr>"
proof -
  have a: "fetch (replying 401 None) export_request = Rejected
      \<or> (\<exists>r. fetch (replying 401 None) export_request = Resolved r \<and> \<not> ok r)"
    by (simp add: replying_def demo_env_def ok_def)
  have b: "fetch (demo_env Rejected True) export_request = Rejected
      \<or> (\<exists>r. fetch (demo_env Rejected True) export_request = Resolved r \<and> \<not> ok r)"
    by (simp add: demo_env_def)
  from a exportToCSV_failure [where env = "replying 401 None" and st = demo_page]
  have c: "exportToCSV (replying 401 None) demo_page =
     demo_page\<lparr>effects := effects demo_page
        @ [Fetch export_request, ConsoleError ''Export failed:'',
           Alert ''Failed to export data. Please try again.'']\<rparr>"
    by blast
  from b exportToCSV_failure [where env = "demo_env Rejected True" and st = demo_page]
  have d: "exportToCSV (demo_env Rejected True) demo_page =
     demo_page\<lparr>effects := effects demo_page
        @ [Fetch export_request, ConsoleError ''Export failed:'',
           Alert ''Failed to export data. Please try again.'']\<rparr>"
    by blast
  from c d show ?thesis by (intro conjI)
qed

subsection \<open>Form submission: validation\<close>

text \<open>
  Claim C3. When the trimmed company or the trimmed position is empty, a submission sends
  no request and shows the validation message: the only entry it adds to the log is the
  alert. The modal and the edit-target id are as before; the state changes in the save
  button alone, which the handler resets.
\<close>

theorem handleFormSubmit_invalid:
  assumes "trim (form_company (jobForm st)) = '''' \<or> trim (form_position (jobForm st)) = ''''"
  shows "handleFormSubmit env st =
           st\<lparr>saveButton_disabled := False, btnText_display := ''inline'',
              btnLoading_display := ''none'',
              effects := effects st @ [Alert ''Company and Position are required fields'']\<rparr>
         \<and> requests (effects (handleFormSubmit env st)) = requests (effects st)
         \<and> jobModal_display (handleFormSubmit env st) = jobModal_display st
         \<and> editingJobId (handleFormSubmit env st) = editingJobId st"
  using assms
  by (auto simp add: handleFormSubmit_def read_form_def button_busy_def button_reset_def
      emit_def Let_def)

theorem handleFormSubmit_invalid_witness:
  "handleFormSubmit (demo_env Rejected True)
     (demo_page\<lparr>jobForm := blank_form\<lparr>form_company := ''   '', form_position := ''Engineer''\<rparr>,
                jobModal_display := ''block'', editingJobId := Some 7\<rparr>)
   = demo_page\<lparr>jobForm := blank_form\<lparr>form_company := ''   '', form_position := ''Engineer''\<rparr>,
                jobModal_display := ''block'', editingJobId := Some 7,
                effects := [Alert ''Company and Position are required fields'']\<rparr>"
proof -
  have blank: "trim ''   '' = ''''"
    by (simp add: trim_def white_space_def strip.simps)
  show ?thesis
    using handleFormSubmit_invalid
      [where env = "demo_env Rejected True"
         and st = "demo_page\<lparr>jobForm := blank_form\<lparr>form_company := ''   '',
                                                   form_position := ''Engineer''\<rparr>,
                              jobModal_display := ''block'', editingJobId := Some 7\<rparr>"]
    by (simp add: blank demo_page_def)
qed

subsection \<open>Deleting\<close>

definition delete_request :: "env \<Rightarrow> int \<Rightarrow> request" where
  "delete_request env jobId =
     api_request_of (API_BASE @ ''/jobs/'' @ number_to_string (numberToString env) jobId, [])
       \<lparr>opt_method = Some ''DELETE'', opt_body = None\<rparr>"

definition confirm_delete :: string where
  "confirm_delete = ''Are you sure you want to delete this application?''"

lemma deleteJob_unfold:
  "deleteJob env jobId st =
     (if \<not> confirm env confirm_delete then emit (Confirm confirm_delete) st
      else
        (case api_outcome (fetch env (delete_request env jobId)) of
           Inl e \<Rightarrow>
             emit (Alert ''Failed to delete application. Please try again.'')
               (emit (ConsoleError ''Failed to delete job:'')
                  (after_api (fetch env (delete_request env jobId)) (delete_request env jobId)
                     (emit (Confirm confirm_delete) st)))
         | Inr v \<Rightarrow>
             loadJobs env
               (after_api (fetch env (delete_request env jobId)) (delete_request env jobId)
                  (emit (Confirm confirm_delete) st))))"
  unfolding deleteJob_def deleteJobById_def apiRequest_after delete_request_def
    confirm_delete_def Let_def
  by (simp split: sum.split)

lemma jobs_request_frame:
  "controls a = controls b \<Longrightarrow> jobs_request a = jobs_request b"
  by (simp add: jobs_request_def controls_def)

text \<open>
  What \<open>deleteJob\<close> does, by the user's answer and by what \<open>apiRequest\<close> makes of the
  server's (\<open>api_outcome\<close>). When the user declines, only the dialog is logged. When the
  user accepts and the call throws, the failure is logged, the retry alert is shown, no
  reload is made and nothing but the loading indicator and the log is written. When the
  call returns, one list request follows the \<^verbatim>\<open>DELETE\<close> (and after it at most the statistics
  request), and no alert is shown.
\<close>

theorem deleteJob_flow:
  "(\<not> confirm env confirm_delete \<longrightarrow>
      deleteJob env jobId st = st\<lparr>effects := effects st @ [Confirm confirm_delete]\<rparr>)
   \<and> (confirm env confirm_delete
        \<and> (\<exists>e. api_outcome (fetch env (delete_request env jobId)) = Inl e) \<longrightarrow>
      deleteJob env jobId st =
        st\<lparr>loading_display := ''none'',
           effects := effects st
             @ [Confirm confirm_delete, Loading ''flex'', Fetch (delete_request env jobId),
                ConsoleError ''API Error:'', Loading ''none'',
                ConsoleError ''Failed to delete job:'',
                Alert ''Failed to delete application. Please try again.'']\<rparr>)
   \<and> (confirm env confirm_delete
        \<and> (\<exists>v. api_outcome (fetch env (delete_request env jobId)) = Inr v) \<longrightarrow>
      (requests (effects (deleteJob env jobId st))
         = requests (effects st) @ [delete_request env jobId, jobs_request st]
       \<or> requests (effects (deleteJob env jobId st))
         = requests (effects st) @ [delete_request env jobId, jobs_request st, stats_request])
      \<and> alerts (effects (deleteJob env jobId st)) = alerts (effects st))"
proof (intro conjI impI)
  assume "\<not> confirm env confirm_delete"
  then show "deleteJob env jobId st = st\<lparr>effects := effects st @ [Confirm confirm_delete]\<rparr>"
    by (simp add: deleteJob_unfold emit_def)
next
  assume "confirm env confirm_delete
    \<and> (\<exists>e. api_outcome (fetch env (delete_request env jobId)) = Inl e)"
  then show "deleteJob env jobId st =
        st\<lparr>loading_display := ''none'',
           effects := effects st
             @ [Confirm confirm_delete, Loading ''flex'', Fetch (delete_request env jobId),
                ConsoleError ''API Error:'', Loading ''none'',
                ConsoleError ''Failed to delete job:'',
                Alert ''Failed to delete application. Please try again.'']\<rparr>"
    by (auto simp add: deleteJob_unfold emit_def after_api_def api_trail_def)
next
  let ?s = "after_api (fetch env (delete_request env jobId)) (delete_request env jobId)
              (emit (Confirm confirm_delete) st)"
  assume a: "confirm env confirm_delete
    \<and> (\<exists>v. api_outcome (fetch env (delete_request env jobId)) = Inr v)"
  then have d: "deleteJob env jobId st = loadJobs env ?s"
    by (auto simp add: deleteJob_unfold)
  have r: "requests (effects ?s) = requests (effects st) @ [delete_request env jobId]"
    by simp
  have j: "jobs_request ?s = jobs_request st"
    by (rule jobs_request_frame) simp
  from loadJobs_requests [of env ?s] r j d
  show "requests (effects (deleteJob env jobId st))
         = requests (effects st) @ [delete_request env jobId, jobs_request st]
       \<or> requests (effects (deleteJob env jobId st))
         = requests (effects st) @ [delete_request env jobId, jobs_request st, stats_request]"
    by auto
  from d show "alerts (effects (deleteJob env jobId st)) = alerts (effects st)"
    by (simp add: loadJobs_alerts)
qed


subsection \<open>Sorting\<close>

text \<open>The sort order after \<open>sortTable column\<close>.\<close>

definition toggled :: "state \<Rightarrow> string \<Rightarrow> string" where
  "toggled st column =
     (if sortColumn st = column then (if sortOrder st = ''asc'' then ''desc'' else ''asc'')
      else ''asc'')"

lemma indexOf_bound: "indexOf xs x = Some i \<Longrightarrow> i < length xs"
  by (induction xs arbitrary: i) (auto split: if_splits)

text \<open>
  With a header cell for each sortable column, \<open>sortTable\<close> does not throw: it sets the sort
  state, restyles the headers and reloads.
\<close>

lemma sortTable_unfold:
  assumes "4 \<le> length (th_classes st)"
  shows "\<exists>ths. length ths = length (th_classes st)
           \<and> sortTable env column st =
               (Inr (),
                loadJobs env
                  (st\<lparr>sortColumn := column, sortOrder := toggled st column,
                      th_classes := ths\<rparr>))"
proof -
  let ?cols = "[''company'', ''position'', ''status'', ''applied_date'']"
  let ?st1 = "st\<lparr>sortColumn := column, sortOrder := toggled st column\<rparr>"
  have st1: "(if sortColumn st = column
              then st\<lparr>sortOrder := (if sortOrder st = ''asc'' then ''desc'' else ''asc'')\<rparr>
              else st\<lparr>sortColumn := column, sortOrder := ''asc''\<rparr>) = ?st1"
    by (auto simp add: toggled_def)
  show ?thesis
  proof (cases "indexOf ?cols column")
    case None
    then have "sortTable env column st =
        (Inr (), loadJobs env (?st1\<lparr>th_classes := map remove_sort (th_classes st)\<rparr>))"
      unfolding sortTable_def st1 Let_def by simp
    then show ?thesis
      by (intro exI [of _ "map remove_sort (th_classes st)"]) simp
  next
    case (Some i)
    then have "i < length ?cols" by (rule indexOf_bound)
    with assms have i: "i < length (th_classes st)" by simp
    let ?ths = "(map remove_sort (th_classes st))
                  [i := add_class (''sort-'' @ toggled st column)
                          (map remove_sort (th_classes st) ! i)]"
    from Some i have "sortTable env column st =
        (Inr (), loadJobs env (?st1\<lparr>th_classes := ?ths\<rparr>))"
      unfolding sortTable_def st1 Let_def by simp
    then show ?thesis
      by (intro exI [of _ ?ths]) simp
  qed
qed

text \<open>
  Claim C5. On a page with a header cell for each of the four sortable columns,
  \<open>sortTable k\<close> on the active column keeps the column and flips the order between \<open>asc\<close>
  and \<open>desc\<close>, so that a second call restores it; on another column it makes \<open>k\<close> the
  active column with order \<open>asc\<close>. Each call then reloads: it sends the list request with
  the new column and order (and after it at most the statistics request), and the list
  it leaves is the one the server sent, or the old one when the request failed. The list
  is never reordered by the client.
\<close>

theorem sortTable_toggle:
  assumes "4 \<le> length (th_classes st)"
  shows "fst (sortTable env k st) = Inr ()
    \<and> sortColumn (snd (sortTable env k st)) = k
    \<and> (sortColumn st = k \<and> sortOrder st = ''asc''
         \<longrightarrow> sortOrder (snd (sortTable env k st)) = ''desc'')
    \<and> (sortColumn st = k \<and> sortOrder st = ''desc''
         \<longrightarrow> sortOrder (snd (sortTable env k st)) = ''asc'')
    \<and> (sortColumn st = k \<and> (sortOrder st = ''asc'' \<or> sortOrder st = ''desc'')
         \<longrightarrow> sortColumn (snd (sortTable env' k (snd (sortTable env k st)))) = k
           \<and> sortOrder (snd (sortTable env' k (snd (sortTable env k st)))) = sortOrder st)
    \<and> (sortColumn st \<noteq> k \<longrightarrow> sortOrder (snd (sortTable env k st)) = ''asc'')
    \<and> (requests (effects (snd (sortTable env k st)))
          = requests (effects st)
            @ [jobs_request (st\<lparr>sortColumn := k, sortOrder := toggled st k\<rparr>)]
        \<or> requests (effects (snd (sortTable env k st)))
          = requests (effects st)
            @ [jobs_request (st\<lparr>sortColumn := k, sortOrder := toggled st k\<rparr>), stats_request])
    \<and> jobs_request (st\<lparr>sortColumn := k, sortOrder := toggled st k\<rparr>)
        = \<lparr>req_method = ''GET'',
           req_url = (''/api/jobs'',
                      [(''sort_by'', k),
                       (''sort_order'', sortOrder (snd (sortTable env k st)))]
                      @ (if statusFilter st \<noteq> '''' then [(''status'', statusFilter st)] else [])),
           req_headers = [(''Content-Type'', ''application/json'')], req_body = None\<rparr>
    \<and> jobs (snd (sortTable env k st))
        = (case api_outcome
                  (fetch env (jobs_request (st\<lparr>sortColumn := k, sortOrder := toggled st k\<rparr>))) of
             Inl e \<Rightarrow> jobs st
           | Inr v \<Rightarrow> v)"
proof -
  from sortTable_unfold [OF assms, of env k]
  obtain ths where len: "length ths = length (th_classes st)"
    and eq: "sortTable env k st =
      (Inr (), loadJobs env (st\<lparr>sortColumn := k, sortOrder := toggled st k, th_classes := ths\<rparr>))"
    by blast
  let ?s = "st\<lparr>sortColumn := k, sortOrder := toggled st k, th_classes := ths\<rparr>"
  let ?t = "snd (sortTable env k st)"
  have t: "?t = loadJobs env ?s" by (simp add: eq)
  have c: "controls ?t = controls ?s" by (simp add: t loadJobs_controls)
  have col: "sortColumn ?t = k" and ord: "sortOrder ?t = toggled st k"
    and ths: "th_classes ?t = ths"
    using controls_fields [OF c] by simp_all
  have jr: "jobs_request ?s = jobs_request (st\<lparr>sortColumn := k, sortOrder := toggled st k\<rparr>)"
    by (simp add: jobs_request_def)
  have twice: "sortColumn (snd (sortTable env' k ?t)) = k
      \<and> sortOrder (snd (sortTable env' k ?t)) = sortOrder st"
    if "sortColumn st = k" and "sortOrder st = ''asc'' \<or> sortOrder st = ''desc''"
  proof -
    from len ths assms have "4 \<le> length (th_classes ?t)" by simp
    from sortTable_unfold [OF this, of env' k]
    obtain ths' where eq': "sortTable env' k ?t =
      (Inr (), loadJobs env' (?t\<lparr>sortColumn := k, sortOrder := toggled ?t k, th_classes := ths'\<rparr>))"
      by blast
    let ?s' = "?t\<lparr>sortColumn := k, sortOrder := toggled ?t k, th_classes := ths'\<rparr>"
    have "controls (snd (sortTable env' k ?t)) = controls ?s'"
      by (simp add: eq' loadJobs_controls)
    from controls_fields(1,2) [OF this]
    have "sortColumn (snd (sortTable env' k ?t)) = k"
      and "sortOrder (snd (sortTable env' k ?t)) = toggled ?t k"
      by simp_all
    moreover from that col ord have "toggled ?t k = sortOrder st"
      by (auto simp add: toggled_def)
    ultimately show ?thesis by simp
  qed
  have req: "requests (effects ?t)
          = requests (effects st)
            @ [jobs_request (st\<lparr>sortColumn := k, sortOrder := toggled st k\<rparr>)]
        \<or> requests (effects ?t)
          = requests (effects st)
            @ [jobs_request (st\<lparr>sortColumn := k, sortOrder := toggled st k\<rparr>), stats_request]"
    using loadJobs_requests [of env ?s] by (simp add: t jr)
  have shape: "jobs_request (st\<lparr>sortColumn := k, sortOrder := toggled st k\<rparr>)
        = \<lparr>req_method = ''GET'',
           req_url = (''/api/jobs'',
                      [(''sort_by'', k), (''sort_order'', sortOrder ?t)]
                      @ (if statusFilter st \<noteq> '''' then [(''status'', statusFilter st)] else [])),
           req_headers = [(''Content-Type'', ''application/json'')], req_body = None\<rparr>"
    by (simp add: ord jobs_request_def api_request_of_def no_options_def API_BASE_def)
  have js: "jobs ?t
        = (case api_outcome
                  (fetch env (jobs_request (st\<lparr>sortColumn := k, sortOrder := toggled st k\<rparr>))) of
             Inl e \<Rightarrow> jobs st
           | Inr v \<Rightarrow> v)"
    by (simp add: t loadJobs_jobs jr split: sum.split)
  have res: "fst (sortTable env k st) = Inr ()" by (simp add: eq)
  from res col ord twice req shape js show ?thesis
    by (simp add: toggled_def)
qed


theorem sortTable_toggle_witness:
  "fst (sortTable (demo_env Rejected True) ''company'' (demo_page\<lparr>sortColumn := ''company''\<rparr>))
     = Inr ()
   \<and> sortOrder (snd (sortTable (demo_env Rejected True) ''company''
                        (demo_page\<lparr>sortColumn := ''company''\<rparr>))) = ''asc''
   \<and> sortOrder (snd (sortTable (demo_env Rejected True) ''company''
        (snd (sortTable (demo_env Rejected True) ''company''
                (demo_page\<lparr>sortColumn := ''company''\<rparr>))))) = ''desc''
   \<and> sortOrder (snd (sortTable (demo_env Rejected True) ''company''
        (demo_page\<lparr>sortColumn := ''company'', sortOrder := ''asc''\<rparr>))) = ''desc''
   \<and> sortColumn (snd (sortTable (demo_env Rejected True) ''status''
                         (demo_page\<lparr>sortColumn := ''company''\<rparr>))) = ''status''
   \<and> sortOrder (snd (sortTable (demo_env Rejected True) ''status''
                        (demo_page\<lparr>sortColumn := ''company''\<rparr>))) = ''asc''"
proof -
  let ?p = "demo_page\<lparr>sortColumn := ''company''\<rparr>"
  let ?q = "demo_page\<lparr>sortColumn := ''company'', sortOrder := ''asc''\<rparr>"
  have headers: "4 \<le> length (th_classes ?p)" "4 \<le> length (th_classes ?q)"
    by (simp_all add: demo_page_def)
  have state: "sortColumn ?p = ''company''" "sortOrder ?p = ''desc''"
    "sortColumn ?p \<noteq> ''status''" "sortColumn ?q = ''company''" "sortOrder ?q = ''asc''"
    by (simp_all add: demo_page_def)
  note same = sortTable_toggle [OF headers(1), where env = "demo_env Rejected True"
      and env' = "demo_env Rejected True" and k = "''company''"]
  note other = sortTable_toggle [OF headers(1), where env = "demo_env Rejected True"
      and env' = "demo_env Rejected True" and k = "''status''"]
  note up = sortTable_toggle [OF headers(2), where env = "demo_env Rejected True"
      and env' = "demo_env Rejected True" and k = "''company''"]
  from same state have a: "fst (sortTable (demo_env Rejected True) ''company'' ?p) = Inr ()"
    and b: "sortOrder (snd (sortTable (demo_env Rejected True) ''company'' ?p)) = ''asc''"
    and c: "sortOrder (snd (sortTable (demo_env Rejected True) ''company''
              (snd (sortTable (demo_env Rejected True) ''company'' ?p)))) = ''desc''"
    by simp_all
  from up state have f: "sortOrder (snd (sortTable (demo_env Rejected True) ''company'' ?q))
      = ''desc''"
    by simp
  from other state have d: "sortColumn (snd (sortTable (demo_env Rejected True) ''status'' ?p))
      = ''status''"
    and e: "sortOrder (snd (sortTable (demo_env Rejected True) ''status'' ?p)) = ''asc''"
    by simp_all
  from a b c f d e show ?thesis by (intro conjI)
qed

subsection \<open>Form submission: saving\<close>

text \<open>The request \<open>saveJob\<close> sends from the state \<open>st\<close> in the browser \<open>env\<close>.\<close>

definition save_request :: "env \<Rightarrow> state \<Rightarrow> request" where
  "save_request env st =
     api_request_of
       (if truthy_id (editingJobId st)
        then API_BASE @ ''/jobs/'' @ id_string (numberToString env) (editingJobId st)
        else API_BASE @ ''/jobs'', [])
       \<lparr>opt_method = Some (if truthy_id (editingJobId st) then ''PUT'' else ''POST''),
        opt_body = Some (read_form st)\<rparr>"

lemma after_api_fields [simp]:
  "sortColumn (after_api a req st) = sortColumn st"
  "sortOrder (after_api a req st) = sortOrder st"
  "statusFilter (after_api a req st) = statusFilter st"
  "editingJobId (after_api a req st) = editingJobId st"
  "jobModal_display (after_api a req st) = jobModal_display st"
  "th_classes (after_api a req st) = th_classes st"
  by (simp_all add: after_api_def)

lemma button_busy_fields [simp]:
  "sortColumn (button_busy st) = sortColumn st"
  "sortOrder (button_busy st) = sortOrder st"
  "statusFilter (button_busy st) = statusFilter st"
  "editingJobId (button_busy st) = editingJobId st"
  "jobModal_display (button_busy st) = jobModal_display st"
  "th_classes (button_busy st) = th_classes st"
  "jobForm (button_busy st) = jobForm st"
  "effects (button_busy st) = effects st"
  by (simp_all add: button_busy_def)

lemma button_reset_fields [simp]:
  "sortColumn (button_reset st) = sortColumn st"
  "sortOrder (button_reset st) = sortOrder st"
  "editingJobId (button_reset st) = editingJobId st"
  "jobModal_display (button_reset st) = jobModal_display st"
  "th_classes (button_reset st) = th_classes st"
  "effects (button_reset st) = effects st"
  by (simp_all add: button_reset_def)

lemma closeModal_fields [simp]:
  "sortColumn (closeModal st) = sortColumn st"
  "sortOrder (closeModal st) = sortOrder st"
  "editingJobId (closeModal st) = None"
  "jobModal_display (closeModal st) = ''none''"
  "th_classes (closeModal st) = th_classes st"
  "effects (closeModal st) = effects st"
  by (simp_all add: closeModal_def)

lemma jobs_request_cong:
  "sortColumn a = sortColumn b \<Longrightarrow> sortOrder a = sortOrder b \<Longrightarrow>
     statusFilter a = statusFilter b \<Longrightarrow> jobs_request a = jobs_request b"
  by (simp add: jobs_request_def)

lemmas loadJobs_fields = controls_fields [OF loadJobs_controls]

lemma read_form_busy [simp]: "read_form (button_busy st) = read_form st"
  by (simp add: read_form_def)

lemma handleFormSubmit_unfold:
  assumes "trim (form_company (jobForm st)) \<noteq> ''''"
    and "trim (form_position (jobForm st)) \<noteq> ''''"
  shows "handleFormSubmit env st =
     (case api_outcome (fetch env (save_request env st)) of
        Inl e \<Rightarrow>
          button_reset
            (emit (Alert ''Failed to save application. Please try again.'')
               (emit (ConsoleError ''Failed to save job:'')
                  (after_api (fetch env (save_request env st)) (save_request env st)
                     (button_busy st))))
      | Inr v \<Rightarrow>
          button_reset
            (closeModal
               (loadJobs env
                  (after_api (fetch env (save_request env st)) (save_request env st)
                     (button_busy st)))))"
proof -
  from assms have valid: "\<not> (data_company (read_form st) = '''' \<or> data_position (read_form st) = '''')"
    by (simp add: read_form_def)
  have save: "saveJob env (read_form st) (button_busy st) =
      (api_outcome (fetch env (save_request env st)),
       after_api (fetch env (save_request env st)) (save_request env st) (button_busy st))"
    by (simp add: saveJob_def apiRequest_after save_request_def Let_def)
  show ?thesis
    unfolding handleFormSubmit_def Let_def read_form_busy save
    using valid by (simp split: sum.split)
qed

text \<open>
  What a submission does when the trimmed company and position are not empty. It sends
  one save request and no other request that is not a \<^verbatim>\<open>GET\<close>. \<open>saveJob\<close> tests the
  edit-target id for truthiness: the request is a \<^verbatim>\<open>PUT\<close> to \<^verbatim>\<open>/api/jobs/{editingJobId}\<close> when
  the id is neither \<^verbatim>\<open>null\<close> nor 0, and a \<^verbatim>\<open>POST\<close> to \<^verbatim>\<open>/api/jobs\<close> otherwise; its body is the
  form's payload. When the save call returns (\<open>api_outcome\<close> of the answer is a value: a
  response in 200 to 299 with a body that parses, or a 401), the list request follows
  (and after it at most the statistics request), no alert is shown, the modal is closed
  and the edit-target id is \<^verbatim>\<open>null\<close>. When it throws, the failure is logged and the retry
  alert shown; the modal, the form and the edit-target id are as before.
\<close>

theorem handleFormSubmit_valid:
  assumes "trim (form_company (jobForm st)) \<noteq> ''''"
    and "trim (form_position (jobForm st)) \<noteq> ''''"
  shows "(requests (effects (handleFormSubmit env st))
            = requests (effects st) @ [save_request env st]
          \<or> requests (effects (handleFormSubmit env st))
            = requests (effects st) @ [save_request env st, jobs_request st]
          \<or> requests (effects (handleFormSubmit env st))
            = requests (effects st) @ [save_request env st, jobs_request st, stats_request])
    \<and> req_method (jobs_request st) = ''GET'' \<and> req_method stats_request = ''GET''
    \<and> (\<forall>n. editingJobId st = Some n \<and> n \<noteq> 0 \<longrightarrow>
          save_request env st =
            \<lparr>req_method = ''PUT'', req_url = (''/api/jobs/'' @ number_to_string (numberToString env) n, []),
             req_headers = [(''Content-Type'', ''application/json'')],
             req_body = Some (read_form st)\<rparr>)
    \<and> (editingJobId st = None \<or> editingJobId st = Some 0 \<longrightarrow>
          save_request env st =
            \<lparr>req_method = ''POST'', req_url = (''/api/jobs'', []),
             req_headers = [(''Content-Type'', ''application/json'')],
             req_body = Some (read_form st)\<rparr>)
    \<and> ((\<exists>v. api_outcome (fetch env (save_request env st)) = Inr v) \<longrightarrow>
          (requests (effects (handleFormSubmit env st))
             = requests (effects st) @ [save_request env st, jobs_request st]
           \<or> requests (effects (handleFormSubmit env st))
             = requests (effects st) @ [save_request env st, jobs_request st, stats_request])
          \<and> alerts (effects (handleFormSubmit env st)) = alerts (effects st)
          \<and> jobModal_display (handleFormSubmit env st) = ''none''
          \<and> editingJobId (handleFormSubmit env st) = None)
    \<and> ((\<exists>e. api_outcome (fetch env (save_request env st)) = Inl e) \<longrightarrow>
          handleFormSubmit env st =
            st\<lparr>loading_display := ''none'', saveButton_disabled := False,
               btnText_display := ''inline'', btnLoading_display := ''none'',
               effects := effects st
                 @ [Loading ''flex'', Fetch (save_request env st), ConsoleError ''API Error:'',
                    Loading ''none'', ConsoleError ''Failed to save job:'',
                    Alert ''Failed to save application. Please try again.'']\<rparr>)"
proof -
  let ?a = "fetch env (save_request env st)"
  let ?s = "after_api ?a (save_request env st) (button_busy st)"
  note unfold = handleFormSubmit_unfold [OF assms, of env]
  have jr: "jobs_request ?s = jobs_request st"
    by (rule jobs_request_cong) simp_all
  have ok_case: "(requests (effects (handleFormSubmit env st))
             = requests (effects st) @ [save_request env st, jobs_request st]
           \<or> requests (effects (handleFormSubmit env st))
             = requests (effects st) @ [save_request env st, jobs_request st, stats_request])
          \<and> alerts (effects (handleFormSubmit env st)) = alerts (effects st)
          \<and> jobModal_display (handleFormSubmit env st) = ''none''
          \<and> editingJobId (handleFormSubmit env st) = None"
    if "api_outcome ?a = Inr v" for v
  proof -
    from that have h: "handleFormSubmit env st = button_reset (closeModal (loadJobs env ?s))"
      by (simp add: unfold)
    from loadJobs_requests [of env ?s]
    have "requests (effects (loadJobs env ?s))
             = requests (effects st) @ [save_request env st, jobs_request st]
           \<or> requests (effects (loadJobs env ?s))
             = requests (effects st) @ [save_request env st, jobs_request st, stats_request]"
      by (simp add: jr)
    moreover have "alerts (effects (loadJobs env ?s)) = alerts (effects st)"
      by (simp add: loadJobs_alerts)
    ultimately show ?thesis by (simp add: h)
  qed
  have fail_case: "handleFormSubmit env st =
            st\<lparr>loading_display := ''none'', saveButton_disabled := False,
               btnText_display := ''inline'', btnLoading_display := ''none'',
               effects := effects st
                 @ [Loading ''flex'', Fetch (save_request env st), ConsoleError ''API Error:'',
                    Loading ''none'', ConsoleError ''Failed to save job:'',
                    Alert ''Failed to save application. Please try again.'']\<rparr>"
    if "api_outcome ?a = Inl e" for e
    using that
    by (simp add: unfold after_api_def api_trail_def emit_def button_reset_def button_busy_def)
  have all_cases: "requests (effects (handleFormSubmit env st))
            = requests (effects st) @ [save_request env st]
          \<or> requests (effects (handleFormSubmit env st))
            = requests (effects st) @ [save_request env st, jobs_request st]
          \<or> requests (effects (handleFormSubmit env st))
            = requests (effects st) @ [save_request env st, jobs_request st, stats_request]"
  proof (cases "api_outcome ?a")
    case (Inl e)
    from fail_case [OF this] show ?thesis by simp
  next
    case (Inr v)
    from ok_case [OF this] show ?thesis by blast
  qed
  have methods: "req_method (jobs_request st) = ''GET'' \<and> req_method stats_request = ''GET''"
    by (simp add: jobs_request_def stats_request_def api_request_of_def no_options_def)
  have put: "save_request env st =
            \<lparr>req_method = ''PUT'', req_url = (''/api/jobs/'' @ number_to_string (numberToString env) n, []),
             req_headers = [(''Content-Type'', ''application/json'')],
             req_body = Some (read_form st)\<rparr>"
    if "editingJobId st = Some n \<and> n \<noteq> 0" for n
    using that by (simp add: save_request_def api_request_of_def API_BASE_def)
  have post: "save_request env st =
            \<lparr>req_method = ''POST'', req_url = (''/api/jobs'', []),
             req_headers = [(''Content-Type'', ''application/json'')],
             req_body = Some (read_form st)\<rparr>"
    if "editingJobId st = None \<or> editingJobId st = Some 0"
    using that by (auto simp add: save_request_def api_request_of_def API_BASE_def)
  from all_cases methods put post ok_case fail_case show ?thesis
    by blast
qed







subsection \<open>Opening the modal\<close>

text \<open>The form as \<open>populateForm\<close> fills it from a record.\<close>

definition form_of :: "job \<Rightarrow> form" where
  "form_of job =
     \<lparr>form_company = or_else (company job) '''',
      form_position = or_else (position job) '''',
      form_status = or_else (status job) ''applied'',
      form_appliedDate = or_else (applied_date job) '''',
      form_jobUrl = or_else (job_url job) '''',
      form_salary = or_else (salary job) '''',
      form_notes = or_else (job_notes job) ''''\<rparr>"

lemma find_present:
  "n \<in> job_id ` set js \<Longrightarrow>
     \<exists>job \<in> set js. job_id job = n \<and> find (\<lambda>j. job_id j = n) js = Some job"
  by (induction js) auto

lemma find_absent: "n \<notin> job_id ` set js \<Longrightarrow> find (\<lambda>j. job_id j = n) js = None"
  by (induction js) auto

lemma openModal_found:
  assumes "n \<noteq> 0" and "jobs st = Some (JJobs js)"
    and "find (\<lambda>j. job_id j = n) js = Some job"
  shows "openModal env (Some n) st =
           (Inr (),
            st\<lparr>editingJobId := Some n, modalTitle := ''Edit Application'',
               jobForm := form_of job, jobModal_display := ''block'',
               effects := effects st @ [FocusLater 100]\<rparr>)"
  using assms
  by (simp add: openModal_def show_modal_def populateForm_def form_of_def emit_def Let_def)

lemma openModal_not_found:
  assumes "n \<noteq> 0" and "jobs st = Some (JJobs js)"
    and "find (\<lambda>j. job_id j = n) js = None"
  shows "openModal env (Some n) st =
           (Inr (),
            st\<lparr>editingJobId := Some n, modalTitle := ''Edit Application'',
               jobModal_display := ''block'',
               effects := effects st @ [FocusLater 100]\<rparr>)"
  using assms
  by (simp add: openModal_def show_modal_def emit_def Let_def)

lemma openModal_create:
  assumes "\<not> truthy_id jobId"
  shows "openModal env jobId st =
           (Inr (),
            st\<lparr>editingJobId := jobId, modalTitle := ''Add New Application'',
               jobForm := (jobForm_defaults st)\<lparr>form_appliedDate := today env\<rparr>,
               jobModal_display := ''block'',
               effects := effects st @ [FocusLater 100]\<rparr>)"
  using assms
  by (simp add: openModal_def show_modal_def emit_def Let_def)

lemma openModal_editingJobId: "editingJobId (snd (openModal env jobId st)) = jobId"
  by (simp add: openModal_def show_modal_def populateForm_def emit_def Let_def
      split: sum.split option.split)

text \<open>
  What \<open>openModal\<close> does to the form. For every id other than 0 that is the id of a
  record of the current list, it fills every field of the form from the first record
  with that id: each field gets the record's text, the empty string standing for a
  missing, \<^verbatim>\<open>null\<close> or empty property (\<open>applied\<close> for the status), and the modal is shown in
  edit mode. \<open>openModal(null)\<close> resets the form to the values of its markup, the blank form
  when the markup gives none, and sets the applied date to the date part of the current
  time's ISO timestamp.
\<close>

theorem openModal_populates:
  "(n \<noteq> 0 \<and> jobs st = Some (JJobs js) \<and> n \<in> job_id ` set js \<longrightarrow>
      (\<exists>job \<in> set js. job_id job = n \<and> find (\<lambda>j. job_id j = n) js = Some job
         \<and> openModal env (Some n) st =
             (Inr (),
              st\<lparr>editingJobId := Some n, modalTitle := ''Edit Application'',
                 jobForm :=
                   \<lparr>form_company = or_else (company job) '''',
                    form_position = or_else (position job) '''',
                    form_status = or_else (status job) ''applied'',
                    form_appliedDate = or_else (applied_date job) '''',
                    form_jobUrl = or_else (job_url job) '''',
                    form_salary = or_else (salary job) '''',
                    form_notes = or_else (job_notes job) ''''\<rparr>,
                 jobModal_display := ''block'',
                 effects := effects st @ [FocusLater 100]\<rparr>)))
   \<and> or_else Undefined d = d \<and> or_else Null d = d \<and> or_else (Str '''') d = d
   \<and> (s \<noteq> '''' \<longrightarrow> or_else (Str s) d = s)
   \<and> openModal env None st =
        (Inr (),
         st\<lparr>editingJobId := None, modalTitle := ''Add New Application'',
            jobForm := (jobForm_defaults st)\<lparr>form_appliedDate := today env\<rparr>,
            jobModal_display := ''block'',
            effects := effects st @ [FocusLater 100]\<rparr>)
   \<and> (jobForm_defaults st = blank_form \<longrightarrow>
        jobForm (snd (openModal env None st)) = blank_form\<lparr>form_appliedDate := today env\<rparr>)"
proof -
  have edit: "\<exists>job \<in> set js. job_id job = n \<and> find (\<lambda>j. job_id j = n) js = Some job
         \<and> openModal env (Some n) st =
             (Inr (),
              st\<lparr>editingJobId := Some n, modalTitle := ''Edit Application'',
                 jobForm := form_of job, jobModal_display := ''block'',
                 effects := effects st @ [FocusLater 100]\<rparr>)"
    if "n \<noteq> 0" and "jobs st = Some (JJobs js)" and "n \<in> job_id ` set js"
  proof -
    from find_present [OF that(3)] obtain job
      where "job \<in> set js" and "job_id job = n" and f: "find (\<lambda>j. job_id j = n) js = Some job"
      by blast
    with openModal_found [OF that(1,2) f, of env] show ?thesis by blast
  qed
  have subst: "or_else Undefined d = d \<and> or_else Null d = d \<and> or_else (Str '''') d = d
      \<and> (s \<noteq> '''' \<longrightarrow> or_else (Str s) d = s)"
    by (simp add: or_else_def)
  have create: "openModal env None st =
        (Inr (),
         st\<lparr>editingJobId := None, modalTitle := ''Add New Application'',
            jobForm := (jobForm_defaults st)\<lparr>form_appliedDate := today env\<rparr>,
            jobModal_display := ''block'',
            effects := effects st @ [FocusLater 100]\<rparr>)"
    by (rule openModal_create) simp
  then have blank: "jobForm_defaults st = blank_form \<longrightarrow>
        jobForm (snd (openModal env None st)) = blank_form\<lparr>form_appliedDate := today env\<rparr>"
    by simp
  from edit subst create blank show ?thesis
    unfolding form_of_def by blast
qed


subsection \<open>The edit-target id\<close>

text \<open>Which handlers write the edit-target id.\<close>

lemma loadStats_editingJobId: "editingJobId (loadStats env st) = editingJobId st"
  using controls_fields(3) [OF loadStats_frame(1)] .

lemma handleFormSubmit_editingJobId:
  "editingJobId (handleFormSubmit env st) = editingJobId st
   \<or> editingJobId (handleFormSubmit env st) = None"
proof (cases "trim (form_company (jobForm st)) = '''' \<or> trim (form_position (jobForm st)) = ''''")
  case True
  then have "handleFormSubmit env st =
      button_reset (emit (Alert ''Company and Position are required fields'') (button_busy st))"
    by (auto simp add: handleFormSubmit_def read_form_def Let_def)
  then show ?thesis by (simp add: emit_def)
next
  case False
  then have "trim (form_company (jobForm st)) \<noteq> ''''"
    and "trim (form_position (jobForm st)) \<noteq> ''''"
    by simp_all
  from handleFormSubmit_unfold [OF this, of env] show ?thesis
    by (simp add: emit_def split: sum.split)
qed

lemma deleteJob_editingJobId: "editingJobId (deleteJob env jobId st) = editingJobId st"
  by (simp add: deleteJob_unfold loadJobs_fields(3) emit_def split: sum.split)

lemma sortTable_editingJobId: "editingJobId (snd (sortTable env column st)) = editingJobId st"
  by (simp add: sortTable_def Let_def loadJobs_fields(3) split: option.split)

lemma exportToCSV_editingJobId: "editingJobId (exportToCSV env st) = editingJobId st"
  by (simp add: exportToCSV_def export_failed_def emit_def Let_def
      split: fetch_result.split option.split)

lemma step_editingJobId:
  "editingJobId (step (env, ev) st) = editingJobId st
   \<or> editingJobId (step (env, ev) st) = None
   \<or> (\<exists>jobId. ev = OpenModal jobId \<and> editingJobId (step (env, ev) st) = jobId)"
proof (cases ev)
  case (OpenModal jobId)
  then show ?thesis by (simp add: openModal_editingJobId)
next
  case Submit
  with handleFormSubmit_editingJobId [of env st] show ?thesis by auto
qed (simp_all add: deleteJob_editingJobId sortTable_editingJobId exportToCSV_editingJobId
      loadStats_editingJobId loadJobs_fields(3) clearFilters_def)

lemma run_snoc: "run (evs @ [ev]) st = step ev (run evs st)"
  by (simp add: run_def)

text \<open>
  Along every run from the initial state, the edit-target id is \<^verbatim>\<open>null\<close> or the argument of
  an earlier call of \<open>openModal\<close>.
\<close>

lemma run_editingJobId:
  "editingJobId (run evs (initial page)) = None
   \<or> (\<exists>evs1 env n evs2. evs = evs1 @ (env, OpenModal (Some n)) # evs2
         \<and> editingJobId (run evs (initial page)) = Some n)"
proof (induction evs rule: rev_induct)
  case Nil
  show ?case by (simp add: run_def initial_def)
next
  case (snoc x evs)
  obtain env ev where x: "x = (env, ev)" by (cases x)
  let ?st = "run evs (initial page)"
  have last: "editingJobId (run (evs @ [x]) (initial page)) = editingJobId (step (env, ev) ?st)"
    by (simp add: run_snoc x)
  from step_editingJobId [of env ev ?st] show ?case
  proof (elim disjE exE conjE)
    assume same: "editingJobId (step (env, ev) ?st) = editingJobId ?st"
    from snoc.IH show ?thesis
    proof
      assume "editingJobId ?st = None"
      with same last show ?thesis by simp
    next
      assume "\<exists>evs1 env n evs2. evs = evs1 @ (env, OpenModal (Some n)) # evs2
         \<and> editingJobId ?st = Some n"
      then obtain evs1 env' n evs2
        where "evs = evs1 @ (env', OpenModal (Some n)) # evs2" and "editingJobId ?st = Some n"
        by blast
      with same last have "evs @ [x] = evs1 @ (env', OpenModal (Some n)) # (evs2 @ [x])"
        and "editingJobId (run (evs @ [x]) (initial page)) = Some n"
        by simp_all
      then show ?thesis by blast
    qed
  next
    assume "editingJobId (step (env, ev) ?st) = None"
    with last show ?thesis by simp
  next
    fix jobId
    assume opened: "ev = OpenModal jobId" "editingJobId (step (env, ev) ?st) = jobId"
    show ?thesis
    proof (cases jobId)
      case None
      with opened last show ?thesis by simp
    next
      case (Some n)
      with opened last x have "evs @ [x] = evs @ (env, OpenModal (Some n)) # []"
        and "editingJobId (run (evs @ [x]) (initial page)) = Some n"
        by simp_all
      then show ?thesis by blast
    qed
  qed
qed

text \<open>
  Claim C1, as the code has it. \<open>openModal(id)\<close> stores \<open>id\<close> as the edit-target id whatever
  \<open>id\<close> is. For an id other than 0 it shows the modal in edit mode whether or not the id
  is found in the current list: when no record has the id, the form is left as it was,
  and when one has, the form is filled from it. \<open>closeModal\<close> sets the edit-target id to
  \<^verbatim>\<open>null\<close> unconditionally. Hence at every state reachable from the initial one the
  edit-target id is \<^verbatim>\<open>null\<close> or the id passed to an earlier \<open>openModal\<close>.
\<close>

theorem editingJobId_invariant:
  "editingJobId (snd (openModal env jobId st)) = jobId
   \<and> (n \<noteq> 0 \<and> jobs st = Some (JJobs js) \<and> n \<notin> job_id ` set js \<longrightarrow>
        openModal env (Some n) st =
          (Inr (),
           st\<lparr>editingJobId := Some n, modalTitle := ''Edit Application'',
              jobModal_display := ''block'', effects := effects st @ [FocusLater 100]\<rparr>))
   \<and> (n \<noteq> 0 \<and> jobs st = Some (JJobs js) \<and> n \<in> job_id ` set js \<longrightarrow>
        (\<exists>job \<in> set js. job_id job = n
           \<and> openModal env (Some n) st =
               (Inr (),
                st\<lparr>editingJobId := Some n, modalTitle := ''Edit Application'',
                   jobForm := jobForm (populateForm job st), jobModal_display := ''block'',
                   effects := effects st @ [FocusLater 100]\<rparr>)))
   \<and> closeModal st = st\<lparr>jobModal_display := ''none'', editingJobId := None\<rparr>
   \<and> (editingJobId (run evs (initial page)) = None
       \<or> (\<exists>evs1 env' m evs2. evs = evs1 @ (env', OpenModal (Some m)) # evs2
            \<and> editingJobId (run evs (initial page)) = Some m))"
proof -
  have absent: "openModal env (Some n) st =
          (Inr (),
           st\<lparr>editingJobId := Some n, modalTitle := ''Edit Application'',
              jobModal_display := ''block'', effects := effects st @ [FocusLater 100]\<rparr>)"
    if "n \<noteq> 0" and "jobs st = Some (JJobs js)" and "n \<notin> job_id ` set js"
    using openModal_not_found [OF that(1,2) find_absent [OF that(3)]] .
  have present: "\<exists>job \<in> set js. job_id job = n
           \<and> openModal env (Some n) st =
               (Inr (),
                st\<lparr>editingJobId := Some n, modalTitle := ''Edit Application'',
                   jobForm := jobForm (populateForm job st), jobModal_display := ''block'',
                   effects := effects st @ [FocusLater 100]\<rparr>)"
    if "n \<noteq> 0" and "jobs st = Some (JJobs js)" and "n \<in> job_id ` set js"
  proof -
    from find_present [OF that(3)] obtain job
      where j: "job \<in> set js" "job_id job = n" and f: "find (\<lambda>j. job_id j = n) js = Some job"
      by blast
    have "jobForm (populateForm job st) = form_of job"
      by (simp add: populateForm_def form_of_def)
    with openModal_found [OF that(1,2) f, of env] j show ?thesis by auto
  qed
  have close: "closeModal st = st\<lparr>jobModal_display := ''none'', editingJobId := None\<rparr>"
    by (simp add: closeModal_def)
  from openModal_editingJobId [of env jobId st] absent present close
    run_editingJobId [of evs page]
  show ?thesis by blast
qed

theorem editingJobId_invariant_witness:
  "openModal (demo_env Rejected True) (Some 7) demo_page =
     (Inr (),
      demo_page\<lparr>editingJobId := Some 7, modalTitle := ''Edit Application'',
         jobModal_display := ''block'',
         effects := effects demo_page @ [FocusLater 100]\<rparr>)
   \<and> (\<exists>job \<in> set [demo_job]. job_id job = 7
        \<and> openModal (demo_env Rejected True) (Some 7)
             (demo_page\<lparr>jobs := Some (JJobs [demo_job])\<rparr>) =
            (Inr (),
             demo_page\<lparr>jobs := Some (JJobs [demo_job]), editingJobId := Some 7,
                modalTitle := ''Edit Application'',
                jobForm := jobForm (populateForm job
                                      (demo_page\<lparr>jobs := Some (JJobs [demo_job])\<rparr>)),
                jobModal_display := ''block'',
                effects := effects (demo_page\<lparr>jobs := Some (JJobs [demo_job])\<rparr>)
                             @ [FocusLater 100]\<rparr>))
   \<and> editingJobId (closeModal (snd (openModal (demo_env Rejected True) (Some 7) demo_page)))
       = None"
proof -
  let ?s = "demo_page\<lparr>jobs := Some (JJobs [demo_job])\<rparr>"
  have h: "(7::int) \<noteq> 0 \<and> jobs demo_page = Some (JJobs []) \<and> 7 \<notin> job_id ` set []"
    by (simp add: demo_page_def)
  have h': "(7::int) \<noteq> 0 \<and> jobs ?s = Some (JJobs [demo_job]) \<and> 7 \<in> job_id ` set [demo_job]"
    by (simp add: demo_job_def)
  note t = editingJobId_invariant
    [where n = 7 and st = demo_page and js = "[]" and env = "demo_env Rejected True"]
  note t' = editingJobId_invariant
    [where n = 7 and st = ?s and js = "[demo_job]" and env = "demo_env Rejected True"]
  from t h have a: "openModal (demo_env Rejected True) (Some 7) demo_page =
     (Inr (),
      demo_page\<lparr>editingJobId := Some 7, modalTitle := ''Edit Application'',
         jobModal_display := ''block'',
         effects := effects demo_page @ [FocusLater 100]\<rparr>)"
    by blast
  from t' h' have "\<exists>job \<in> set [demo_job]. job_id job = 7
        \<and> openModal (demo_env Rejected True) (Some 7) ?s =
            (Inr (),
             ?s\<lparr>editingJobId := Some 7, modalTitle := ''Edit Application'',
                jobForm := jobForm (populateForm job ?s), jobModal_display := ''block'',
                effects := effects ?s @ [FocusLater 100]\<rparr>)"
    by blast
  then have c: "\<exists>job \<in> set [demo_job]. job_id job = 7
        \<and> openModal (demo_env Rejected True) (Some 7) ?s =
            (Inr (),
             demo_page\<lparr>jobs := Some (JJobs [demo_job]), editingJobId := Some 7,
                modalTitle := ''Edit Application'',
                jobForm := jobForm (populateForm job ?s), jobModal_display := ''block'',
                effects := effects ?s @ [FocusLater 100]\<rparr>)"
    by simp
  have b: "editingJobId (closeModal (snd (openModal (demo_env Rejected True) (Some 7) demo_page)))
       = None"
    by (simp add: closeModal_def)
  from a c b show ?thesis by (intro conjI)
qed

text \<open>
  Against the claim as it was stated: on the initial page, whose list is empty,
  \<open>openModal(7)\<close> shows the modal in edit mode with 7 as the edit-target id, the id of no
  record of the list.
\<close>

theorem openModal_unknown_id_counterexample:
  "jobs (initial demo_page) = Some (JJobs [])
   \<and> editingJobId (run [(demo_env Rejected True, OpenModal (Some 7))] (initial demo_page))
       = Some 7
   \<and> modalTitle (run [(demo_env Rejected True, OpenModal (Some 7))] (initial demo_page))
       = ''Edit Application''
   \<and> jobModal_display (run [(demo_env Rejected True, OpenModal (Some 7))] (initial demo_page))
       = ''block''"
  by (simp add: run_def initial_def openModal_def show_modal_def emit_def Let_def)

subsection \<open>Reachable sort states and headers\<close>

text \<open>
  The two facts the sorting theorem asks of a state hold along every run: the order is
  \<open>asc\<close> or \<open>desc\<close>, and no handler adds or removes a header cell.
\<close>

lemma sortTable_order:
  "sortOrder (snd (sortTable env column st)) = ''asc''
   \<or> sortOrder (snd (sortTable env column st)) = ''desc''"
  by (simp add: sortTable_def Let_def loadJobs_fields(2) split: option.split)

lemma sortTable_headers:
  "length (th_classes (snd (sortTable env column st))) = length (th_classes st)"
  by (simp add: sortTable_def Let_def loadJobs_fields(8) split: option.split)

lemma handleFormSubmit_sort:
  "sortOrder (handleFormSubmit env st) = sortOrder st"
  "th_classes (handleFormSubmit env st) = th_classes st"
proof -
  show "sortOrder (handleFormSubmit env st) = sortOrder st"
  proof (cases "trim (form_company (jobForm st)) = ''''
                \<or> trim (form_position (jobForm st)) = ''''")
    case True
    then show ?thesis
      by (auto simp add: handleFormSubmit_def read_form_def Let_def emit_def)
  next
    case False
    then have "trim (form_company (jobForm st)) \<noteq> ''''"
      and "trim (form_position (jobForm st)) \<noteq> ''''"
      by simp_all
    from handleFormSubmit_unfold [OF this, of env] show ?thesis
      by (simp add: emit_def loadJobs_fields(2) split: sum.split)
  qed
  show "th_classes (handleFormSubmit env st) = th_classes st"
  proof (cases "trim (form_company (jobForm st)) = ''''
                \<or> trim (form_position (jobForm st)) = ''''")
    case True
    then show ?thesis
      by (auto simp add: handleFormSubmit_def read_form_def Let_def emit_def)
  next
    case False
    then have "trim (form_company (jobForm st)) \<noteq> ''''"
      and "trim (form_position (jobForm st)) \<noteq> ''''"
      by simp_all
    from handleFormSubmit_unfold [OF this, of env] show ?thesis
      by (simp add: emit_def loadJobs_fields(8) split: sum.split)
  qed
qed

lemma step_sort:
  "(sortOrder (step (env, ev) st) = sortOrder st
    \<or> sortOrder (step (env, ev) st) = ''asc'' \<or> sortOrder (step (env, ev) st) = ''desc'')
   \<and> length (th_classes (step (env, ev) st)) = length (th_classes st)"
proof (cases ev)
  case (OpenModal jobId)
  then show ?thesis
    by (simp add: openModal_def show_modal_def populateForm_def emit_def Let_def
        split: sum.split option.split)
next
  case (SortTable column)
  with sortTable_order [of env column st] sortTable_headers [of env column st]
  show ?thesis by auto
next
  case (DeleteJob jobId)
  then show ?thesis
    by (simp add: deleteJob_unfold loadJobs_fields(2,8) emit_def split: sum.split)
next
  case ExportToCSV
  then show ?thesis
    by (simp add: exportToCSV_def export_failed_def emit_def Let_def
        split: fetch_result.split option.split)
next
  case LoadStats
  then show ?thesis
    using controls_fields(2,8) [OF loadStats_frame(1), of env st] by simp
qed (simp_all add: handleFormSubmit_sort loadJobs_fields(2,8) clearFilters_def closeModal_def)

lemma run_sort:
  "(sortOrder (run evs (initial page)) = ''asc'' \<or> sortOrder (run evs (initial page)) = ''desc'')
   \<and> length (th_classes (run evs (initial page))) = length (th_classes page)"
proof (induction evs rule: rev_induct)
  case Nil
  show ?case by (simp add: run_def initial_def)
next
  case (snoc x evs)
  obtain env ev where x: "x = (env, ev)" by (cases x)
  from step_sort [of env ev "run evs (initial page)"] snoc.IH show ?case
    by (auto simp add: run_snoc x)
qed

end
